theory Spec2Isabelle
  imports Main "HOL-Library.Word"
begin

section \<open>The ceph_key module: CephX key management\<close>

text \<open>
  A shallow embedding of \<^verbatim>\<open>library/ceph_key.py\<close>. The module is Python 2 code
  (it strips \<^verbatim>\<open>b"\r\n"\<close> from the text a command printed, which only a byte
  string accepts), so a Python string is a \<^typ>\<open>string\<close> of bytes, a command line is a
  list of strings, and a dictionary is the list of its items in iteration order.
\<close>

type_synonym cmd = "string list"
type_synonym byte = "8 word"

subsection \<open>Exceptions and the ways an invocation ends\<close>

text \<open>
  The exceptions the module can raise. \<^verbatim>\<open>NameError\<close> is a read of a global name that
  nothing binds, \<^verbatim>\<open>UnboundLocalError\<close> (its subclass) a read of a local variable
  before its first assignment.
\<close>

datatype error =
    NameError string
  | UnboundLocalError string
  | TypeError
  | AttributeError
  | IndexError
  | KeyError string
  | StructError
  | Exception string

text \<open>
  The result dictionary. The keys \<^verbatim>\<open>rc\<close>, \<^verbatim>\<open>start\<close>, \<^verbatim>\<open>end\<close> and \<^verbatim>\<open>delta\<close> start
  as the empty string, which is \<open>None\<close> here, and the key \<^verbatim>\<open>cmd\<close> is absent until the
  last assignment. Times are kept as numbers; their rendering by \<^verbatim>\<open>str\<close> is not
  modelled.
\<close>

record result =
  r_changed :: bool
  r_stdout :: string
  r_stderr :: string
  r_rc :: "int option"
  r_start :: "int option"
  r_end :: "int option"
  r_delta :: "int option"
  r_cmd :: "cmd option"

text \<open>The keyword arguments of the three calls of \<^verbatim>\<open>module.fail_json\<close>.\<close>

datatype fail_kwargs =
    Only_rc int
  | Changed_rc bool int
  | Result_kwargs result

text \<open>
  What ends an invocation before \<^verbatim>\<open>run_module\<close> returns: \<^verbatim>\<open>module.exit_json\<close> and
  \<^verbatim>\<open>module.fail_json\<close> print their arguments and leave the process, an exception
  unwinds it.
\<close>

datatype stop =
    Exit_json result
  | Fail_json string fail_kwargs
  | Raise error

subsection \<open>The world outside the module\<close>

text \<open>What the module does to the operating system, in the order it does it.\<close>

datatype event =
    Run_command cmd
  | Chown string nat nat
  | Chmod string
  | Set_fs_attributes string

text \<open>
  A parsed JSON value. The module tells strings, arrays and objects apart and treats
  every other value alike, so one constructor with an integer stands for the numbers.
\<close>

datatype json =
    JNull
  | JBool bool
  | JNumber int
  | JString string
  | JArray "json list"
  | JObject "(string \<times> json) list"

text \<open>
  The answers of the collaborators the module calls, each a function of what the
  invocation has done so far: the exit code, output and error text of a command, the
  clock, the file system, the account database. \<open>json_loads\<close> is the JSON parser
  (\<open>None\<close> where it raises \<^verbatim>\<open>ValueError\<close>); an object it returns is a dictionary, the
  list of its items. \<open>unix_time\<close> is \<^verbatim>\<open>int(time.time())\<close>.
\<close>

record world =
  module_check_mode :: bool
  module_run_command :: "event list \<Rightarrow> cmd \<Rightarrow> int \<times> string \<times> string"
  datetime_now :: "event list \<Rightarrow> int"
  os_urandom :: "nat \<Rightarrow> byte list"
  unix_time :: int
  socket_gethostname :: string
  pwd_getpwnam :: "string \<Rightarrow> nat option"
  grp_getgrnam :: "string \<Rightarrow> nat option"
  os_path_isfile :: "event list \<Rightarrow> string \<Rightarrow> bool"
  os_chown :: "event list \<Rightarrow> string \<Rightarrow> nat \<Rightarrow> nat \<Rightarrow> string option"
  os_chmod :: "event list \<Rightarrow> string \<Rightarrow> string option"
  json_loads :: "string \<Rightarrow> json option"

text \<open>
  The module parameters, with the defaults of the argument specification filled in by
  the caller: the cluster (default \<^verbatim>\<open>ceph\<close>), the import flag (default true) and the
  destination (default \<^verbatim>\<open>/etc/ceph/\<close>) always have a value, the others may be \<open>None\<close>.
  The entity name is a string: the documentation requires it, and an invocation that
  gives none is not covered.
\<close>

record params =
  p_cluster :: string
  p_name :: string
  p_state :: string
  p_containerized :: "string option"
  p_caps :: "(string \<times> string) list option"
  p_secret :: "string option"
  p_import_key :: bool
  p_dest :: string

text \<open>
  A computation threads the events so far and either stops the invocation or goes on
  with a value.
\<close>

type_synonym 'a comp = "event list \<Rightarrow> (stop + 'a) \<times> event list"

definition ret :: "'a \<Rightarrow> 'a comp" where
  "ret x = (\<lambda>t. (Inr x, t))"

definition bnd :: "'a comp \<Rightarrow> ('a \<Rightarrow> 'b comp) \<Rightarrow> 'b comp" where
  "bnd m f = (\<lambda>t. case m t of (Inl s, t') \<Rightarrow> (Inl s, t') | (Inr x, t') \<Rightarrow> f x t')"

definition halt :: "stop \<Rightarrow> 'a comp" where
  "halt s = (\<lambda>t. (Inl s, t))"

definition lift :: "error + 'a \<Rightarrow> 'a comp" where
  "lift r = (case r of Inl e \<Rightarrow> halt (Raise e) | Inr x \<Rightarrow> ret x)"

definition emit :: "event \<Rightarrow> unit comp" where
  "emit e = (\<lambda>t. (Inr (), t @ [e]))"

definition bind_e :: "error + 'a \<Rightarrow> ('a \<Rightarrow> error + 'b) \<Rightarrow> error + 'b" where
  "bind_e r f = (case r of Inl e \<Rightarrow> Inl e | Inr x \<Rightarrow> f x)"

text \<open>
  The read of a global name that the module binds nowhere: \<^verbatim>\<open>base_cmd\<close> is a local of
  \<^verbatim>\<open>generate_ceph_cmd\<close> only, \<^verbatim>\<open>container_image\<close> occurs only where it is read, and
  \<^verbatim>\<open>module\<close> is a local of \<^verbatim>\<open>run_module\<close> only.
\<close>

definition unbound_global :: "string \<Rightarrow> error + 'a" where
  "unbound_global n = Inl (NameError n)"

subsection \<open>Strings\<close>

text \<open>\<^verbatim>\<open>sub in s\<close> on strings: \<open>sub\<close> occurs in \<open>s\<close> as a contiguous run.\<close>

fun str_contains :: "string \<Rightarrow> string \<Rightarrow> bool" where
  "str_contains [] sub = (sub = [])"
| "str_contains (c # s) sub = (take (length sub) (c # s) = sub \<or> str_contains s sub)"

text \<open>\<^verbatim>\<open>s.split(sep)\<close> with a one-character separator.\<close>

fun str_split :: "char \<Rightarrow> string \<Rightarrow> string list" where
  "str_split sep [] = [[]]"
| "str_split sep (c # s) =
     (if c = sep then [] # str_split sep s
      else (case str_split sep s of [] \<Rightarrow> [[c]] | x # xs \<Rightarrow> (c # x) # xs))"

definition is_space :: "char \<Rightarrow> bool" where
  "is_space c = (c \<in> set [CHR '' '', CHR 0x09, CHR 0x0A, CHR 0x0B, CHR 0x0C, CHR 0x0D])"

text \<open>\<^verbatim>\<open>s.split()\<close>: the maximal runs without white space.\<close>

fun split_ws :: "string \<Rightarrow> string \<Rightarrow> string list" where
  "split_ws cur [] = (if cur = [] then [] else [cur])"
| "split_ws cur (c # s) =
     (if is_space c then (if cur = [] then split_ws [] s else cur # split_ws [] s)
      else split_ws (cur @ [c]) s)"

definition str_split_ws :: "string \<Rightarrow> string list" where
  "str_split_ws s = split_ws [] s"

text \<open>\<^verbatim>\<open>s.rstrip(b"\r\n")\<close>: drop the trailing carriage returns and line feeds.\<close>

definition rstrip_crlf :: "string \<Rightarrow> string" where
  "rstrip_crlf s = rev (dropWhile (\<lambda>c. c = CHR 0x0D \<or> c = CHR 0x0A) (rev s))"

definition CEPH_INITIAL_KEYS :: "string list" where
  "CEPH_INITIAL_KEYS =
     [''client.admin'', ''client.bootstrap-mds'', ''client.bootstrap-mgr'',
      ''client.bootstrap-osd'', ''client.bootstrap-rbd'', ''client.bootstrap-rbd-mirror'',
      ''client.bootstrap-rgw'']"

text \<open>
  \<^verbatim>\<open>fatal(message, module)\<close>: \<open>module\<close> is the truth value of the module object.
\<close>

definition fatal :: "string \<Rightarrow> bool \<Rightarrow> 'a comp" where
  "fatal message module =
     (if module then halt (Fail_json message (Only_rc 1))
      else halt (Raise (Exception message)))"

subsection \<open>Capability encoder\<close>

text \<open>
  \<^verbatim>\<open>generate_caps(cmd, _type, caps)\<close>: the loop over \<^verbatim>\<open>caps.items()\<close>; \<^verbatim>\<open>cmd\<close> is
  extended in place and returned.
\<close>

fun generate_caps :: "cmd \<Rightarrow> string \<Rightarrow> (string \<times> string) list \<Rightarrow> cmd" where
  "generate_caps cmd type' [] = cmd"
| "generate_caps cmd type' ((k, v) # caps) =
     (if length k = 0 then generate_caps cmd type' caps
      else generate_caps
             ((if type' = ''ceph-authtool'' then cmd @ [''--cap''] else cmd) @ [k, v])
             type' caps)"

text \<open>
  The encoder as the specification words it: the entries with a non-empty subsystem
  name, each as the adjacent tokens key and value, with the capability flag in front of
  the pair for the authoring dialect.
\<close>

definition caps_tokens :: "string \<Rightarrow> (string \<times> string) list \<Rightarrow> string list" where
  "caps_tokens type' caps =
     concat (map (\<lambda>(k, v). (if type' = ''ceph-authtool'' then [''--cap''] else []) @ [k, v])
                 (filter (\<lambda>(k, v). k \<noteq> []) caps))"

subsection \<open>Secret generation\<close>

text \<open>
  \<^verbatim>\<open>struct.pack('<hiih', a, b, c, d)\<close>: little-endian, no padding, a signed 16-bit, two
  signed 32-bit and a signed 16-bit field in two's complement; a value outside the range
  of its field raises \<^verbatim>\<open>struct.error\<close>.
\<close>

definition le_bytes :: "nat \<Rightarrow> int \<Rightarrow> byte list" where
  "le_bytes n x = map (\<lambda>i. word_of_int (x div 256 ^ i)) [0..<n]"

definition fits_signed :: "nat \<Rightarrow> int \<Rightarrow> bool" where
  "fits_signed bits x = (- (2 ^ (bits - 1)) \<le> x \<and> x < 2 ^ (bits - 1))"

definition struct_pack_hiih :: "int \<Rightarrow> int \<Rightarrow> int \<Rightarrow> int \<Rightarrow> error + byte list" where
  "struct_pack_hiih a b c d =
     (if fits_signed 16 a \<and> fits_signed 32 b \<and> fits_signed 32 c \<and> fits_signed 16 d
      then Inr (le_bytes 2 a @ le_bytes 4 b @ le_bytes 4 c @ le_bytes 2 d)
      else Inl StructError)"

text \<open>\<^verbatim>\<open>base64.b64encode\<close>: the standard alphabet, padded with \<^verbatim>\<open>=\<close>.\<close>

definition b64_alphabet :: string where
  "b64_alphabet = ''ABCDEFGHIJKLMNOPQRSTUVWXYZabcdefghijklmnopqrstuvwxyz0123456789+/''"

definition b64_char :: "nat \<Rightarrow> char" where
  "b64_char i = b64_alphabet ! i"

fun b64encode :: "byte list \<Rightarrow> string" where
  "b64encode [] = []"
| "b64encode [a] =
     [b64_char (unat a div 4), b64_char (unat a mod 4 * 16), CHR ''='', CHR ''='']"
| "b64encode [a, b] =
     [b64_char (unat a div 4), b64_char (unat a mod 4 * 16 + unat b div 16),
      b64_char (unat b mod 16 * 4), CHR ''='']"
| "b64encode (a # b # c # rest) =
     [b64_char (unat a div 4), b64_char (unat a mod 4 * 16 + unat b div 16),
      b64_char (unat b mod 16 * 4 + unat c div 64), b64_char (unat c mod 64)]
     @ b64encode rest"

text \<open>
  \<^verbatim>\<open>generate_secret()\<close>: sixteen bytes from \<^verbatim>\<open>os.urandom\<close>, the header packed in front
  of them, the whole in base64.
\<close>

definition generate_secret :: "world \<Rightarrow> error + string" where
  "generate_secret w =
     (let key = os_urandom w 16 in
      bind_e (struct_pack_hiih 1 (unix_time w) 0 (int (length key))) (\<lambda>header.
      let secret = b64encode (header @ key) in
      Inr secret))"

text \<open>
  The decoder of base64, the inverse the claims about a secret's header are stated
  with. It is not part of the module.
\<close>

fun index_of :: "'a \<Rightarrow> 'a list \<Rightarrow> nat" where
  "index_of x [] = 0"
| "index_of x (y # ys) = (if x = y then 0 else Suc (index_of x ys))"

definition b64_index :: "char \<Rightarrow> nat" where
  "b64_index c = index_of c b64_alphabet"

fun b64decode :: "string \<Rightarrow> byte list" where
  "b64decode (c0 # c1 # c2 # c3 # rest) =
     (let i0 = b64_index c0; i1 = b64_index c1; i2 = b64_index c2; i3 = b64_index c3 in
      if c2 = CHR ''='' then [of_nat (i0 * 4 + i1 div 16)]
      else if c3 = CHR ''='' then [of_nat (i0 * 4 + i1 div 16), of_nat (i1 mod 16 * 16 + i2 div 4)]
      else [of_nat (i0 * 4 + i1 div 16), of_nat (i1 mod 16 * 16 + i2 div 4),
            of_nat (i2 mod 4 * 64 + i3)] @ b64decode rest)"
| "b64decode _ = []"

text \<open>
  Reading the packed header back: the little-endian value of a run of bytes, and the
  four fields of a blob.
\<close>

fun le_value :: "byte list \<Rightarrow> nat" where
  "le_value [] = 0"
| "le_value (b # bs) = unat b + 256 * le_value bs"

definition header_version :: "byte list \<Rightarrow> nat" where
  "header_version blob = le_value (take 2 blob)"

definition header_created :: "byte list \<Rightarrow> nat" where
  "header_created blob = le_value (take 4 (drop 2 blob))"

definition header_reserved :: "byte list \<Rightarrow> nat" where
  "header_reserved blob = le_value (take 4 (drop 6 blob))"

definition header_key_length :: "byte list \<Rightarrow> nat" where
  "header_key_length blob = le_value (take 2 (drop 10 blob))"

subsection \<open>Command builders\<close>

text \<open>
  The container prefix: \<^verbatim>\<open>if containerized: cmd = containerized.split() + cmd\<close>, where
  \<open>None\<close> and the empty string are false.
\<close>

definition with_container :: "string option \<Rightarrow> cmd \<Rightarrow> cmd" where
  "with_container containerized cmd =
     (case containerized of
        None \<Rightarrow> cmd
      | Some c \<Rightarrow> if c \<noteq> [] then str_split_ws c @ cmd else cmd)"

definition generate_ceph_cmd :: "string \<Rightarrow> string list \<Rightarrow> string \<Rightarrow> string \<Rightarrow> string option \<Rightarrow> cmd" where
  "generate_ceph_cmd cluster args user user_key containerized =
     (let cmd = [];
          base_cmd = [''ceph'', ''-n'', user, ''-k'', user_key, ''--cluster'', cluster, ''auth''];
          cmd = cmd @ (base_cmd @ args)
      in with_container containerized cmd)"

text \<open>
  \<^verbatim>\<open>generate_ceph_authtool_cmd\<close>: after the command is started, \<^verbatim>\<open>cmd.extend(base_cmd)\<close>
  reads a name that is bound neither in the function nor in the module.
\<close>

definition generate_ceph_authtool_cmd ::
  "string \<Rightarrow> string \<Rightarrow> string \<Rightarrow> (string \<times> string) list \<Rightarrow> string \<Rightarrow> string \<Rightarrow> string option
   \<Rightarrow> error + cmd" where
  "generate_ceph_authtool_cmd cluster name secret caps auid dest containerized =
     (let file_destination = dest @ ''/'' @ cluster @ ''.'' @ name @ ''.keyring'';
          cmd = [''ceph-authtool'', ''--create-keyring'', file_destination,
                 ''--name'', name, ''--add-key'', secret]
      in bind_e (unbound_global ''base_cmd'') (\<lambda>base_cmd.
         let cmd = cmd @ base_cmd;
             cmd = generate_caps cmd ''ceph-authtool'' caps
         in Inr (with_container containerized cmd)))"

text \<open>
  \<^verbatim>\<open>create_key\<close>. The parameters \<open>module\<close> and \<open>result\<close> are not used by the body; the
  world stands for the module. The call of \<^verbatim>\<open>generate_ceph_authtool_cmd\<close> gives six
  positional arguments, so \<open>dest\<close> arrives as its \<open>auid\<close> and the value of the name
  \<^verbatim>\<open>container_image\<close> as its \<open>dest\<close>; the arguments are evaluated before the call.
\<close>

definition create_key ::
  "world \<Rightarrow> result \<Rightarrow> string \<Rightarrow> string \<Rightarrow> string option \<Rightarrow> (string \<times> string) list \<Rightarrow> bool
   \<Rightarrow> string \<Rightarrow> string \<Rightarrow> string option \<Rightarrow> error + cmd list" where
  "create_key w result cluster name secret caps import_key auid dest containerized =
     (let file_path = dest @ ''/'' @ cluster @ ''.'' @ name @ ''.keyring'';
          args = [''import'', ''-i'', file_path];
          cmd_list = []
      in bind_e (case secret of
                   None \<Rightarrow> generate_secret w
                 | Some s \<Rightarrow> if s = [] then generate_secret w else Inr s) (\<lambda>secret.
         bind_e (unbound_global ''container_image'') (\<lambda>container_image.
         bind_e (generate_ceph_authtool_cmd cluster name secret caps dest container_image None)
           (\<lambda>authtool_cmd.
         let cmd_list = cmd_list @ [authtool_cmd] in
         if import_key then
           (let user = ''client.admin'';
                user_key = ''/etc/ceph/'' @ cluster @ ''.client.admin.keyring''
            in Inr (cmd_list @ [generate_ceph_cmd cluster args user user_key containerized]))
         else Inr cmd_list))))"

definition update_key :: "string \<Rightarrow> string \<Rightarrow> (string \<times> string) list \<Rightarrow> string option \<Rightarrow> cmd list" where
  "update_key cluster name caps containerized =
     (let cmd_list = [];
          args = [''caps'', name];
          args = generate_caps args ''ceph'' caps;
          user = ''client.admin'';
          user_key = ''/etc/ceph/'' @ cluster @ ''.client.admin.keyring''
      in cmd_list @ [generate_ceph_cmd cluster args user user_key containerized])"

definition delete_key :: "string \<Rightarrow> string \<Rightarrow> string option \<Rightarrow> cmd list" where
  "delete_key cluster name containerized =
     (let cmd_list = [];
          args = [''del'', name];
          user = ''client.admin'';
          user_key = ''/etc/ceph/'' @ cluster @ ''.client.admin.keyring''
      in cmd_list @ [generate_ceph_cmd cluster args user user_key containerized])"

definition info_key :: "string \<Rightarrow> string \<Rightarrow> string \<Rightarrow> string \<Rightarrow> string \<Rightarrow> string option \<Rightarrow> cmd list" where
  "info_key cluster name user user_key output_format containerized =
     (let cmd_list = [];
          args = [''get'', name, ''-f'', output_format]
      in cmd_list @ [generate_ceph_cmd cluster args user user_key containerized])"

definition list_keys :: "string \<Rightarrow> string \<Rightarrow> string \<Rightarrow> string option \<Rightarrow> cmd list" where
  "list_keys cluster user user_key containerized =
     (let cmd_list = [];
          args = [''ls'', ''-f'', ''json'']
      in cmd_list @ [generate_ceph_cmd cluster args user user_key containerized])"

subsection \<open>Command executor\<close>

text \<open>
  \<^verbatim>\<open>exec_commands(module, cmd_list)\<close>. The loop carries the variables \<open>rc\<close>, \<open>cmd\<close>,
  \<open>out\<close> and \<open>err\<close> of the last command run as \<open>prev\<close>, \<open>None\<close> before the first one; the
  \<^verbatim>\<open>return\<close> after the loop reads \<open>rc\<close> first.
\<close>

type_synonym cmd_result = "int \<times> cmd \<times> string \<times> string"

fun exec_loop :: "world \<Rightarrow> cmd list \<Rightarrow> cmd_result option \<Rightarrow> cmd_result comp" where
  "exec_loop w [] prev t =
     (case prev of
        None \<Rightarrow> (Inl (Raise (UnboundLocalError ''rc'')), t)
      | Some r \<Rightarrow> (Inr r, t))"
| "exec_loop w (cmd # cmd_list) prev t =
     (case module_run_command w t cmd of (rc, out, err) \<Rightarrow>
        if rc \<noteq> 0 then (Inr (rc, cmd, out, err), t @ [Run_command cmd])
        else exec_loop w cmd_list (Some (rc, cmd, out, err)) (t @ [Run_command cmd]))"

definition exec_commands :: "world \<Rightarrow> cmd list \<Rightarrow> cmd_result comp" where
  "exec_commands w cmd_list = exec_loop w cmd_list None"

subsection \<open>Bootstrap-key lookup\<close>

text \<open>
  The operations of \<^verbatim>\<open>lookup_ceph_initial_entities\<close> on a parsed value, which may be
  any JSON value: \<^verbatim>\<open>k in d\<close>, \<^verbatim>\<open>d[k]\<close> and iteration.
\<close>

definition json_contains :: "json \<Rightarrow> string \<Rightarrow> error + bool" where
  "json_contains d k =
     (case d of
        JObject items \<Rightarrow> Inr (k \<in> set (map fst items))
      | JArray xs \<Rightarrow> Inr (JString k \<in> set xs)
      | JString s \<Rightarrow> Inr (str_contains s k)
      | _ \<Rightarrow> Inl TypeError)"

definition json_getitem :: "json \<Rightarrow> string \<Rightarrow> error + json" where
  "json_getitem d k =
     (case d of
        JObject items \<Rightarrow> (case map_of items k of None \<Rightarrow> Inl (KeyError k) | Some v \<Rightarrow> Inr v)
      | _ \<Rightarrow> Inl TypeError)"

definition json_iter :: "json \<Rightarrow> error + json list" where
  "json_iter d =
     (case d of
        JArray xs \<Rightarrow> Inr xs
      | JObject items \<Rightarrow> Inr (map (\<lambda>(k, v). JString k) items)
      | JString s \<Rightarrow> Inr (map (\<lambda>c. JString [c]) s)
      | _ \<Rightarrow> Inl TypeError)"

text \<open>The inner loop, over \<^verbatim>\<open>key.items()\<close>.\<close>

fun entity_items :: "(string \<times> json) list \<Rightarrow> string list \<Rightarrow> string list" where
  "entity_items [] entities = entities"
| "entity_items ((k, v) # items) entities =
     entity_items items
       (if k = ''entity'' then
          (case v of
             JString s \<Rightarrow> if s \<in> set CEPH_INITIAL_KEYS then entities @ [s] else entities
           | _ \<Rightarrow> entities)
        else entities)"

text \<open>The outer loop, over the entries of the dump; only a dictionary has \<^verbatim>\<open>items\<close>.\<close>

fun entities_of_dump :: "json list \<Rightarrow> string list \<Rightarrow> error + string list" where
  "entities_of_dump [] entities = Inr entities"
| "entities_of_dump (key # keys) entities =
     (case key of
        JObject items \<Rightarrow> entities_of_dump keys (entity_items items entities)
      | _ \<Rightarrow> Inl AttributeError)"

text \<open>
  \<^verbatim>\<open>lookup_ceph_initial_entities(out)\<close>. Both calls of \<^verbatim>\<open>fatal\<close> pass the name
  \<^verbatim>\<open>module\<close>, which this function does not bind; it is read after the message is built
  and before \<^verbatim>\<open>fatal\<close> is entered.
\<close>

definition lookup_ceph_initial_entities :: "world \<Rightarrow> string \<Rightarrow> string list option comp" where
  "lookup_ceph_initial_entities w out =
     bnd (case json_loads w out of
            Some d \<Rightarrow> ret d
          | None \<Rightarrow>
              bnd (lift (unbound_global ''module'')) (\<lambda>module.
              fatal ''Could not decode 'ceph auth list' json output: '' module)) (\<lambda>out_dict.
     bnd (lift (json_contains out_dict ''auth_dump'')) (\<lambda>has_dump.
     bnd (if has_dump then
            bnd (lift (json_getitem out_dict ''auth_dump'')) (\<lambda>dump.
            bnd (lift (json_iter dump)) (\<lambda>keys.
            lift (entities_of_dump keys [])))
          else
            bnd (lift (unbound_global ''module'')) (\<lambda>module.
            fatal (CHR 0x27 # ''auth_dump' key not present in json output:'') module)) (\<lambda>entities.
     if length entities \<noteq> length CEPH_INITIAL_KEYS then ret None
     else ret (Some entities))))"

definition build_key_path :: "string \<Rightarrow> string \<Rightarrow> error + string option" where
  "build_key_path cluster entity =
     (if str_contains entity ''admin'' then
        (let path = ''/etc/ceph'' in
         Inr (Some (path @ ''/'' @ cluster @ ''.'' @ entity @ ''.keyring'')))
      else if str_contains entity ''bootstrap'' then
        (let path = ''/var/lib/ceph'' in
         case str_split (CHR ''.'') entity of
           _ # entity_split # _ \<Rightarrow>
             Inr (Some (path @ ''/'' @ entity_split @ ''/'' @ cluster @ ''.keyring''))
         | _ \<Rightarrow> Inl IndexError)
      else Inr None)"

subsection \<open>Dispatcher\<close>

definition exit_json :: "result \<Rightarrow> 'a comp" where
  "exit_json result = halt (Exit_json result)"

definition fail_json :: "string \<Rightarrow> fail_kwargs \<Rightarrow> 'a comp" where
  "fail_json msg kwargs = halt (Fail_json msg kwargs)"

definition now :: "world \<Rightarrow> int comp" where
  "now w = (\<lambda>t. (Inr (datetime_now w t), t))"

text \<open>
  The locals \<open>rc\<close>, \<open>cmd\<close>, \<open>out\<close> and \<open>err\<close> of \<^verbatim>\<open>run_module\<close> are assigned together,
  first by the existence check, which runs only when \<open>import_key\<close> is true. They are
  \<open>None\<close> while unassigned, and a read of \<open>rc\<close> then raises.
\<close>

definition read_rc :: "cmd_result option \<Rightarrow> int comp" where
  "read_rc pre =
     (case pre of
        None \<Rightarrow> halt (Raise (UnboundLocalError ''rc''))
      | Some (rc, cmd, out, err) \<Rightarrow> ret rc)"

text \<open>
  The two keyrings the module authenticates with, each built by \<^verbatim>\<open>os.path.join\<close> of a
  single string, which returns it.
\<close>

definition admin_keyring :: "string \<Rightarrow> string" where
  "admin_keyring cluster = ''/etc/ceph/'' @ cluster @ ''.client.admin.keyring''"

definition mon_keyring :: "string \<Rightarrow> string \<Rightarrow> string" where
  "mon_keyring cluster hostname = ''/var/lib/ceph/mon/'' @ cluster @ ''-'' @ hostname @ ''/keyring''"

definition key_exists_check :: "world \<Rightarrow> params \<Rightarrow> cmd_result option comp" where
  "key_exists_check w p =
     (if p_import_key p then
        (let user = ''client.admin'';
             user_key = admin_keyring (p_cluster p);
             output_format = ''json''
         in bnd (exec_commands w
                   (info_key (p_cluster p) (p_name p) user user_key output_format
                      (p_containerized p))) (\<lambda>r.
            ret (Some r)))
      else ret None)"

text \<open>\<^verbatim>\<open>if not caps: fatal(...)\<close>: no mapping and the empty mapping are both false.\<close>

definition require_caps :: "params \<Rightarrow> string \<Rightarrow> (string \<times> string) list comp" where
  "require_caps p state =
     (case p_caps p of
        None \<Rightarrow> fatal (''Capabilities must be provided when state is ''
                        @ [CHR 0x27] @ state @ [CHR 0x27]) True
      | Some caps \<Rightarrow>
          if caps = [] then fatal (''Capabilities must be provided when state is ''
                                    @ [CHR 0x27] @ state @ [CHR 0x27]) True
          else ret caps)"

definition no_secret :: "string option \<Rightarrow> bool" where
  "no_secret secret = (case secret of None \<Rightarrow> True | Some s \<Rightarrow> s = [])"

definition skipped_exists :: "string \<Rightarrow> string" where
  "skipped_exists name =
     ''skipped, since '' @ name
     @ '' already exists, if you want to update a key use 'state: update'' @ [CHR 0x27]"

definition skipped_missing :: "string \<Rightarrow> string" where
  "skipped_missing name = ''skipped, since '' @ name @ '' does not exist''"

text \<open>
  State \<^verbatim>\<open>present\<close>. The call of \<^verbatim>\<open>create_key\<close> gives nine positional arguments, so
  \<open>dest\<close> arrives as its \<open>auid\<close> and the value of the name \<^verbatim>\<open>container_image\<close> as its
  \<open>dest\<close>; the arguments are evaluated before the call.
\<close>

definition state_present :: "world \<Rightarrow> params \<Rightarrow> result \<Rightarrow> cmd_result option \<Rightarrow> cmd_result comp" where
  "state_present w p result pre =
     bnd (require_caps p ''present'') (\<lambda>caps.
     bnd (if p_import_key p then
            bnd (read_rc pre) (\<lambda>rc.
            if rc = 0 \<and> no_secret (p_secret p) then
              exit_json (result\<lparr>r_stdout := skipped_exists (p_name p), r_rc := Some rc\<rparr>)
            else ret ())
          else ret ()) (\<lambda>_.
     bnd (lift (unbound_global ''container_image'')) (\<lambda>container_image.
     bnd (lift (create_key w result (p_cluster p) (p_name p) (p_secret p) caps (p_import_key p)
                  (p_dest p) container_image None)) (\<lambda>cmd_list.
     bnd (exec_commands w cmd_list) (\<lambda>r.
     let file_path = p_dest p @ ''/'' @ p_cluster p @ ''.'' @ p_name p @ ''.keyring'' in
     bnd (emit (Set_fs_attributes file_path)) (\<lambda>_.
     ret r))))))"

definition state_update :: "world \<Rightarrow> params \<Rightarrow> result \<Rightarrow> cmd_result option \<Rightarrow> cmd_result comp" where
  "state_update w p result pre =
     bnd (require_caps p ''update'') (\<lambda>caps.
     bnd (read_rc pre) (\<lambda>rc.
     bnd (if rc \<noteq> 0 then
            exit_json (result\<lparr>r_stdout := skipped_missing (p_name p), r_rc := Some 0\<rparr>)
          else ret ()) (\<lambda>_.
     exec_commands w (update_key (p_cluster p) (p_name p) caps (p_containerized p)))))"

definition state_absent :: "world \<Rightarrow> params \<Rightarrow> cmd_result comp" where
  "state_absent w p = exec_commands w (delete_key (p_cluster p) (p_name p) (p_containerized p))"

definition state_info :: "world \<Rightarrow> params \<Rightarrow> result \<Rightarrow> cmd_result option \<Rightarrow> cmd_result comp" where
  "state_info w p result pre =
     bnd (read_rc pre) (\<lambda>rc.
     bnd (if rc \<noteq> 0 then
            exit_json (result\<lparr>r_stdout := skipped_missing (p_name p), r_rc := Some 0\<rparr>)
          else ret ()) (\<lambda>_.
     let user = ''client.admin'';
         user_key = admin_keyring (p_cluster p);
         output_format = ''json''
     in exec_commands w
          (info_key (p_cluster p) (p_name p) user user_key output_format (p_containerized p))))"

definition state_list :: "world \<Rightarrow> params \<Rightarrow> cmd_result comp" where
  "state_list w p =
     (let user = ''client.admin'';
          user_key = admin_keyring (p_cluster p)
      in exec_commands w (list_keys (p_cluster p) user user_key (p_containerized p)))"

text \<open>
  The ownership fix of one fetched key: \<^verbatim>\<open>os.chown\<close> then \<^verbatim>\<open>os.chmod\<close>, an
  \<^verbatim>\<open>OSError\<close> of either (its text, \<open>None\<close> when the call succeeds) being fatal.
\<close>

definition os_call :: "event \<Rightarrow> (event list \<Rightarrow> string option) \<Rightarrow> string option comp" where
  "os_call e answer = (\<lambda>t. (Inr (answer t), t @ [e]))"

definition permission_failure :: "string \<Rightarrow> string \<Rightarrow> string" where
  "permission_failure key_path e =
     ''Failed to set owner/group/permissions of '' @ key_path @ '': '' @ e"

definition set_owner_and_mode :: "world \<Rightarrow> string \<Rightarrow> nat \<Rightarrow> nat \<Rightarrow> unit comp" where
  "set_owner_and_mode w key_path ceph_uid ceph_grp =
     bnd (os_call (Chown key_path ceph_uid ceph_grp)
            (\<lambda>t. os_chown w t key_path ceph_uid ceph_grp)) (\<lambda>chown_error.
     case chown_error of
       Some e \<Rightarrow> fatal (permission_failure key_path e) True
     | None \<Rightarrow>
         bnd (os_call (Chmod key_path) (\<lambda>t. os_chmod w t key_path)) (\<lambda>chmod_error.
         case chmod_error of
           Some e \<Rightarrow> fatal (permission_failure key_path e) True
         | None \<Rightarrow> ret ()))"

text \<open>
  The body of the loop over the entities found: \<open>prev\<close> is the value of \<open>rc\<close>, \<open>cmd\<close>,
  \<open>out\<close> and \<open>err\<close> on entry, kept when the key file is already there.
\<close>

definition fetch_entity ::
  "world \<Rightarrow> string \<Rightarrow> string \<Rightarrow> string \<Rightarrow> string option \<Rightarrow> nat \<Rightarrow> nat \<Rightarrow> string \<Rightarrow> cmd_result
   \<Rightarrow> cmd_result comp" where
  "fetch_entity w cluster user user_key containerized ceph_uid ceph_grp entity prev =
     bnd (lift (build_key_path cluster entity)) (\<lambda>key_path.
     case key_path of
       None \<Rightarrow> fatal ''Failed to build key path, no entity yet?'' True
     | Some key_path \<Rightarrow>
         (\<lambda>t. if os_path_isfile w t key_path then (Inr prev, t)
               else
                 (let output_format = ''plain'';
                      extra_args = [''-o'', key_path];
                      info_cmd = info_key cluster entity user user_key output_format containerized
                  in bnd (lift (case info_cmd of
                                  [] \<Rightarrow> Inl IndexError
                                | c # cs \<Rightarrow> Inr ((c @ extra_args) # cs))) (\<lambda>info_cmd.
                     bnd (exec_commands w info_cmd) (\<lambda>r.
                     bnd (set_owner_and_mode w key_path ceph_uid ceph_grp) (\<lambda>_.
                     ret r)))) t))"

fun fetch_loop ::
  "world \<Rightarrow> string \<Rightarrow> string \<Rightarrow> string \<Rightarrow> string option \<Rightarrow> nat \<Rightarrow> nat \<Rightarrow> string list \<Rightarrow> cmd_result
   \<Rightarrow> cmd_result comp" where
  "fetch_loop w cluster user user_key containerized ceph_uid ceph_grp [] prev t = (Inr prev, t)"
| "fetch_loop w cluster user user_key containerized ceph_uid ceph_grp (entity # entities) prev t =
     (case fetch_entity w cluster user user_key containerized ceph_uid ceph_grp entity prev t of
        (Inl s, t') \<Rightarrow> (Inl s, t')
      | (Inr r, t') \<Rightarrow>
          fetch_loop w cluster user user_key containerized ceph_uid ceph_grp entities r t')"

definition account_id :: "(string \<Rightarrow> nat option) \<Rightarrow> string \<Rightarrow> string \<Rightarrow> error + nat" where
  "account_id db fn n =
     (case db n of
        None \<Rightarrow> Inl (KeyError (fn @ ''(): name not found: '' @ n))
      | Some i \<Rightarrow> Inr i)"

definition state_fetch_initial_keys :: "world \<Rightarrow> params \<Rightarrow> result \<Rightarrow> cmd_result comp" where
  "state_fetch_initial_keys w p result =
     (let hostname = socket_gethostname w;
          user = ''mon.'';
          user_key = mon_keyring (p_cluster p) hostname
      in bnd (exec_commands w (list_keys (p_cluster p) user user_key (p_containerized p)))
           (\<lambda>(rc, cmd, out, err).
         bnd (if rc \<noteq> 0 then
                exit_json (result\<lparr>r_stdout := ''failed to retrieve ceph keys'', r_rc := Some 0\<rparr>)
              else ret ()) (\<lambda>_.
         bnd (lookup_ceph_initial_entities w out) (\<lambda>entities.
         bnd (case entities of
                None \<Rightarrow> fatal ''Failed to find some of the initial entities'' True
              | Some entities \<Rightarrow> ret entities) (\<lambda>entities.
         bnd (lift (account_id (pwd_getpwnam w) ''getpwnam'' ''ceph'')) (\<lambda>ceph_uid.
         bnd (lift (account_id (grp_getgrnam w) ''getgrnam'' ''ceph'')) (\<lambda>ceph_grp.
         fetch_loop w (p_cluster p) user user_key (p_containerized p) ceph_uid ceph_grp
           entities (rc, cmd, out, err))))))))"

definition invalid_state_msg :: string where
  \<open>invalid_state_msg =
     ''State must either be "present" or "absent" or "update" or "list" or "info" or "fetch_initial_keys".''\<close>

definition initial_result :: result where
  "initial_result =
     \<lparr>r_changed = False, r_stdout = [], r_stderr = [], r_rc = None, r_start = None,
      r_end = None, r_delta = None, r_cmd = None\<rparr>"

text \<open>
  \<^verbatim>\<open>run_module()\<close>: the value returned in check mode, or how the invocation stops, with
  the events in order.
\<close>

definition run_module :: "world \<Rightarrow> params \<Rightarrow> (stop + result) \<times> event list" where
  "run_module w p =
     (let state = p_state p;
          result = initial_result
      in if module_check_mode w then (Inr result, [])
         else
           bnd (now w) (\<lambda>startd.
           bnd (key_exists_check w p) (\<lambda>pre.
           bnd (if state = ''present'' then state_present w p result pre
                else if state = ''update'' then state_update w p result pre
                else if state = ''absent'' then state_absent w p
                else if state = ''info'' then state_info w p result pre
                else if state = ''list'' then state_list w p
                else if state = ''fetch_initial_keys'' then state_fetch_initial_keys w p result
                else fail_json invalid_state_msg (Changed_rc False 1)) (\<lambda>(rc, cmd, out, err).
           bnd (now w) (\<lambda>endd.
           let delta = endd - startd;
               result = \<lparr>r_changed = True, r_stdout = rstrip_crlf out, r_stderr = rstrip_crlf err,
                         r_rc = Some rc, r_start = Some startd, r_end = Some endd,
                         r_delta = Some delta, r_cmd = Some cmd\<rparr>
           in bnd (if rc \<noteq> 0 then fail_json ''non-zero return code'' (Result_kwargs result)
                   else ret ()) (\<lambda>_.
              exit_json result))))) [])"

subsection \<open>Vocabulary of the properties\<close>

text \<open>
  The command of the key-existence check, whether it finds the key, and the events of an
  invocation up to the dispatch on the state.
\<close>

definition existence_cmd :: "params \<Rightarrow> cmd" where
  "existence_cmd p =
     generate_ceph_cmd (p_cluster p) [''get'', p_name p, ''-f'', ''json''] ''client.admin''
       (admin_keyring (p_cluster p)) (p_containerized p)"

definition key_exists :: "world \<Rightarrow> params \<Rightarrow> bool" where
  "key_exists w p = (fst (module_run_command w [] (existence_cmd p)) = 0)"

definition pre_events :: "params \<Rightarrow> event list" where
  "pre_events p = (if p_import_key p then [Run_command (existence_cmd p)] else [])"

definition recognized_states :: "string list" where
  "recognized_states =
     [''present'', ''update'', ''absent'', ''info'', ''list'', ''fetch_initial_keys'']"

definition no_caps :: "params \<Rightarrow> bool" where
  "no_caps p = (p_caps p = None \<or> p_caps p = Some [])"

definition caps_required_msg :: "string \<Rightarrow> string" where
  "caps_required_msg state =
     ''Capabilities must be provided when state is '' @ [CHR 0x27] @ state @ [CHR 0x27]"

text \<open>
  The blob of a secret as the specification lays it out: the version 1 in two bytes, the
  timestamp in four, a zero in four, the length 16 in two, then the key material.
\<close>

definition secret_blob :: "int \<Rightarrow> byte list \<Rightarrow> byte list" where
  "secret_blob timestamp key =
     le_bytes 2 1 @ le_bytes 4 timestamp @ le_bytes 4 0 @ le_bytes 2 16 @ key"

text \<open>
  A concrete world and a concrete invocation: every command exits with \<open>rc\<close> and prints
  \<open>out\<close>, the parser returns \<open>parsed\<close>, no key file is on disk yet; the parameters are
  those of the documentation's example of a key to create.
\<close>

definition sample_world :: "int \<Rightarrow> string \<Rightarrow> json option \<Rightarrow> world" where
  "sample_world rc out parsed =
     \<lparr>module_check_mode = False,
      module_run_command = (\<lambda>t cmd. (rc, out, [])),
      datetime_now = (\<lambda>t. int (length t)),
      os_urandom = (\<lambda>n. replicate n 0),
      unix_time = 1541030400,
      socket_gethostname = ''mon0'',
      pwd_getpwnam = (\<lambda>n. Some 167),
      grp_getgrnam = (\<lambda>n. Some 167),
      os_path_isfile = (\<lambda>t path. False),
      os_chown = (\<lambda>t path uid gid. None),
      os_chmod = (\<lambda>t path. None),
      json_loads = (\<lambda>s. parsed)\<rparr>"

definition sample_params :: params where
  "sample_params =
     \<lparr>p_cluster = ''ceph'', p_name = ''client.key'', p_state = ''present'',
      p_containerized = None,
      p_caps = Some [(''mon'', ''allow rwx''), (''mds'', ''allow *'')],
      p_secret = None, p_import_key = True, p_dest = ''/etc/ceph/''\<rparr>"

definition sample_existence_cmd :: cmd where
  "sample_existence_cmd =
     [''ceph'', ''-n'', ''client.admin'', ''-k'', ''/etc/ceph/ceph.client.admin.keyring'',
      ''--cluster'', ''ceph'', ''auth'', ''get'', ''client.key'', ''-f'', ''json'']"

text \<open>
  The command of the requested operation for the states \<^verbatim>\<open>update\<close>, \<^verbatim>\<open>absent\<close>,
  \<^verbatim>\<open>info\<close> and \<^verbatim>\<open>list\<close>.
\<close>

definition operation_args :: "params \<Rightarrow> (string \<times> string) list \<Rightarrow> string list" where
  "operation_args p caps =
     (if p_state p = ''update'' then generate_caps [''caps'', p_name p] ''ceph'' caps
      else if p_state p = ''absent'' then [''del'', p_name p]
      else if p_state p = ''info'' then [''get'', p_name p, ''-f'', ''json'']
      else [''ls'', ''-f'', ''json''])"

definition operation_cmd :: "params \<Rightarrow> (string \<times> string) list \<Rightarrow> cmd" where
  "operation_cmd p caps =
     generate_ceph_cmd (p_cluster p) (operation_args p caps) ''client.admin''
       (admin_keyring (p_cluster p)) (p_containerized p)"

text \<open>
  The concrete world again, but where exactly the command \<open>bad\<close> exits with 2 and every
  other command with 0; and the command that deletes the sample key.
\<close>

definition failing_world :: "cmd \<Rightarrow> world" where
  "failing_world bad =
     (sample_world 0 [] None)
       \<lparr>module_run_command :=
          (\<lambda>t cmd. if cmd = bad then (2, [], ''Error ENOENT'') else (0, [], []))\<rparr>"

definition sample_delete_cmd :: cmd where
  "sample_delete_cmd =
     [''ceph'', ''-n'', ''client.admin'', ''-k'', ''/etc/ceph/ceph.client.admin.keyring'',
      ''--cluster'', ''ceph'', ''auth'', ''del'', ''client.key'']"

text \<open>
  For the bootstrap fetch: the listing command, run with the monitor's keyring; the
  entity values of the dump's entries that are initial keys, in order and with
  repetitions; and an invocation that ended in a failure.
\<close>

definition listing_cmd :: "world \<Rightarrow> params \<Rightarrow> cmd" where
  "listing_cmd w p =
     generate_ceph_cmd (p_cluster p) [''ls'', ''-f'', ''json''] ''mon.''
       (mon_keyring (p_cluster p) (socket_gethostname w)) (p_containerized p)"

definition listing_events :: "world \<Rightarrow> params \<Rightarrow> event list" where
  "listing_events w p = pre_events p @ [Run_command (listing_cmd w p)]"

definition is_object :: "json \<Rightarrow> bool" where
  "is_object d = (case d of JObject items \<Rightarrow> True | _ \<Rightarrow> False)"

definition item_entities :: "(string \<times> json) list \<Rightarrow> string list" where
  "item_entities items =
     concat (map (\<lambda>(k, v). case v of
                             JString s \<Rightarrow>
                               if k = ''entity'' \<and> s \<in> set CEPH_INITIAL_KEYS then [s] else []
                           | _ \<Rightarrow> []) items)"

definition found_entities :: "json list \<Rightarrow> string list" where
  "found_entities ds =
     concat (map (\<lambda>d. case d of JObject items \<Rightarrow> item_entities items | _ \<Rightarrow> []) ds)"

definition failed :: "stop + result \<Rightarrow> bool" where
  "failed r =
     (case r of
        Inl (Fail_json msg kwargs) \<Rightarrow> True
      | Inl (Raise e) \<Rightarrow> True
      | _ \<Rightarrow> False)"

text \<open>A listing whose dump names the admin entity seven times and no other entity.\<close>

definition admin_entry :: json where
  "admin_entry =
     JObject [(''entity'', JString ''client.admin''),
              (''key'', JString ''AQAin8tU2DsKFBAAFIAzVTzkL3+gtAjjpQiomw==''),
              (''caps'', JObject [(''mon'', JString ''allow *'')])]"

definition repeated_admin_listing :: json where
  "repeated_admin_listing =
     JObject [(''auth_dump'', JArray [admin_entry, admin_entry, admin_entry, admin_entry,
                                     admin_entry, admin_entry, admin_entry])]"

definition fetch_params :: params where
  "fetch_params = sample_params\<lparr>p_state := ''fetch_initial_keys'', p_import_key := False\<rparr>"



definition sample_listing_cmd :: cmd where
  "sample_listing_cmd =
     [''ceph'', ''-n'', ''mon.'', ''-k'', ''/var/lib/ceph/mon/ceph-mon0/keyring'', ''--cluster'',
      ''ceph'', ''auth'', ''ls'', ''-f'', ''json'']"

definition sample_fetch_cmd :: cmd where
  "sample_fetch_cmd =
     [''ceph'', ''-n'', ''mon.'', ''-k'', ''/var/lib/ceph/mon/ceph-mon0/keyring'', ''--cluster'',
      ''ceph'', ''auth'', ''get'', ''client.admin'', ''-f'', ''plain'', ''-o'',
      ''/etc/ceph/ceph.client.admin.keyring'']"


section \<open>Verified properties\<close>

subsection \<open>Capability encoder\<close>


lemma generate_caps_append:
  "generate_caps cmd type' caps = cmd @ caps_tokens type' caps"
  by (induction cmd type' caps rule: generate_caps.induct) (simp_all add: caps_tokens_def)

text \<open>
  C8: for every capability mapping, the encoder drops the entries whose subsystem name
  is empty and appends every other entry to the command as the adjacent tokens key and
  value, in the mapping's iteration order, with \<^verbatim>\<open>--cap\<close> in front of each pair exactly
  for the dialect \<^verbatim>\<open>ceph-authtool\<close>; the mapping mon: allow rwx, mds: allow * gives
  \<^verbatim>\<open>--cap mon "allow rwx" --cap mds "allow *"\<close> for the authoring dialect and
  \<^verbatim>\<open>mon "allow rwx" mds "allow *"\<close> for the admin dialect.
\<close>

theorem generate_caps_encoding:
  "generate_caps cmd type' caps =
     cmd @ concat (map (\<lambda>(k, v). (if type' = ''ceph-authtool'' then [''--cap''] else []) @ [k, v])
                       (filter (\<lambda>(k, v). k \<noteq> []) caps))
   \<and> generate_caps [] ''ceph-authtool'' [(''mon'', ''allow rwx''), (''mds'', ''allow *'')]
       = [''--cap'', ''mon'', ''allow rwx'', ''--cap'', ''mds'', ''allow *'']
   \<and> generate_caps [] ''ceph'' [(''mon'', ''allow rwx''), (''mds'', ''allow *'')]
       = [''mon'', ''allow rwx'', ''mds'', ''allow *'']"
  by (simp add: generate_caps_append caps_tokens_def)


subsection \<open>The dispatcher up to the requested state\<close>

lemma info_key_single:
  "info_key c n ''client.admin'' (admin_keyring c) ''json'' ct
     = [generate_ceph_cmd c [''get'', n, ''-f'', ''json''] ''client.admin'' (admin_keyring c) ct]"
  by (simp add: info_key_def)

lemma exec_single:
  "exec_commands w [c] t =
     (case module_run_command w t c of (rc, out, err) \<Rightarrow>
        (Inr (rc, c, out, err), t @ [Run_command c]))"
  by (simp add: exec_commands_def split: prod.splits)

lemma pre_check_result:
  "key_exists_check w p [] =
     (Inr (if p_import_key p then
             (case module_run_command w [] (existence_cmd p) of (rc, out, err) \<Rightarrow>
                Some (rc, existence_cmd p, out, err))
           else None), pre_events p)"
  by (simp add: key_exists_check_def info_key_single exec_single bnd_def ret_def
      existence_cmd_def pre_events_def split: prod.splits)

lemma run_module_unfold:
  "\<not> module_check_mode w \<Longrightarrow> run_module w p =
     (case key_exists_check w p [] of
        (Inl s, t) \<Rightarrow> (Inl s, t)
      | (Inr pre, t) \<Rightarrow>
          bnd (if p_state p = ''present'' then state_present w p initial_result pre
               else if p_state p = ''update'' then state_update w p initial_result pre
               else if p_state p = ''absent'' then state_absent w p
               else if p_state p = ''info'' then state_info w p initial_result pre
               else if p_state p = ''list'' then state_list w p
               else if p_state p = ''fetch_initial_keys''
                 then state_fetch_initial_keys w p initial_result
               else fail_json invalid_state_msg (Changed_rc False 1)) (\<lambda>(rc, cmd, out, err).
          bnd (now w) (\<lambda>endd.
          let delta = endd - datetime_now w [];
              result = \<lparr>r_changed = True, r_stdout = rstrip_crlf out,
                        r_stderr = rstrip_crlf err, r_rc = Some rc,
                        r_start = Some (datetime_now w []), r_end = Some endd,
                        r_delta = Some delta, r_cmd = Some cmd\<rparr>
          in bnd (if rc \<noteq> 0 then fail_json ''non-zero return code'' (Result_kwargs result)
                  else ret ()) (\<lambda>_.
             exit_json result))) t)"
  by (simp add: run_module_def Let_def bnd_def now_def split: prod.splits sum.splits)

lemma require_caps_fails:
  "no_caps p \<Longrightarrow>
   require_caps p st t = (Inl (Fail_json (caps_required_msg st) (Only_rc 1)), t)"
  by (auto simp add: no_caps_def require_caps_def fatal_def halt_def caps_required_msg_def)

lemma require_caps_ok:
  "p_caps p = Some caps \<Longrightarrow> caps \<noteq> [] \<Longrightarrow> require_caps p st t = (Inr caps, t)"
  by (simp add: require_caps_def ret_def)

lemmas sample_simps =
  sample_world_def sample_params_def sample_existence_cmd_def existence_cmd_def
  generate_ceph_cmd_def with_container_def admin_keyring_def key_exists_def pre_events_def
  no_secret_def no_caps_def

lemmas eval_simps =
  run_module_def Let_def bnd_def now_def key_exists_check_def info_key_def exec_commands_def
  ret_def halt_def lift_def unbound_global_def exit_json_def fail_json_def fatal_def
  require_caps_def read_rc_def state_present_def state_update_def state_info_def
  state_absent_def state_list_def initial_result_def

subsection \<open>State present\<close>

text \<open>
  C1: every invocation with state \<^verbatim>\<open>present\<close> that gets past the no-op short-circuit
  (outside check mode, with capabilities, and not the case of an imported key that
  exists with no secret given) raises an unbound-name error before any command list is
  produced, whatever the parameters: \<^verbatim>\<open>generate_ceph_authtool_cmd\<close> reads the undefined
  \<^verbatim>\<open>base_cmd\<close>, \<^verbatim>\<open>create_key\<close> never returns a command list and reads the undefined
  \<^verbatim>\<open>container_image\<close> (once it has a secret), and the dispatcher reads the undefined
  \<^verbatim>\<open>container_image\<close> when it calls \<^verbatim>\<open>create_key\<close>, having run at most the
  key-existence check.
\<close>

theorem creation_path_unbound_name:
  "generate_ceph_authtool_cmd cluster name secret caps auid dest containerized
     = Inl (NameError ''base_cmd'')
   \<and> isl (create_key w result cluster name secret' caps import_key auid dest containerized)
   \<and> ((no_secret secret' \<longrightarrow> \<not> isl (generate_secret w)) \<longrightarrow>
        create_key w result cluster name secret' caps import_key auid dest containerized
          = Inl (NameError ''container_image''))
   \<and> (\<not> module_check_mode w \<and> p_state p = ''present'' \<and> p_caps p = Some pcaps \<and> pcaps \<noteq> []
        \<and> \<not> (p_import_key p \<and> key_exists w p \<and> no_secret (p_secret p)) \<longrightarrow>
        run_module w p = (Inl (Raise (NameError ''container_image'')), pre_events p))"
proof -
  have a: "generate_ceph_authtool_cmd cluster name secret caps auid dest containerized
     = Inl (NameError ''base_cmd'')"
    by (simp add: generate_ceph_authtool_cmd_def bind_e_def unbound_global_def)
  have b: "isl (create_key w result cluster name secret' caps import_key auid dest containerized)"
    by (simp add: create_key_def bind_e_def unbound_global_def split: sum.splits option.splits)
  have c: "create_key w result cluster name secret' caps import_key auid dest containerized
          = Inl (NameError ''container_image'')"
    if "no_secret secret' \<longrightarrow> \<not> isl (generate_secret w)"
    using that
    by (auto simp add: create_key_def bind_e_def unbound_global_def no_secret_def
        split: sum.splits option.splits)
  have d: "run_module w p = (Inl (Raise (NameError ''container_image'')), pre_events p)"
    if "\<not> module_check_mode w" "p_state p = ''present''" "p_caps p = Some pcaps" "pcaps \<noteq> []"
        "\<not> (p_import_key p \<and> key_exists w p \<and> no_secret (p_secret p))"
    using that
    by (auto simp add: run_module_unfold pre_check_result bnd_def halt_def ret_def lift_def
        unbound_global_def exit_json_def state_present_def require_caps_ok read_rc_def
        key_exists_def pre_events_def split: prod.splits)
  from a b c d show ?thesis by blast
qed

theorem creation_path_unbound_name_witness:
  "\<not> module_check_mode (sample_world 2 [] None)
   \<and> p_state sample_params = ''present''
   \<and> p_caps sample_params = Some [(''mon'', ''allow rwx''), (''mds'', ''allow *'')]
   \<and> \<not> (p_import_key sample_params \<and> key_exists (sample_world 2 [] None) sample_params
          \<and> no_secret (p_secret sample_params))
   \<and> \<not> isl (generate_secret (sample_world 2 [] None))
   \<and> run_module (sample_world 2 [] None) sample_params
       = (Inl (Raise (NameError ''container_image'')), [Run_command sample_existence_cmd])
   \<and> create_key (sample_world 2 [] None) initial_result ''ceph'' ''client.key'' None
        [(''mon'', ''allow rwx''), (''mds'', ''allow *'')] True ''/etc/ceph/'' ''/etc/ceph/'' None
       = Inl (NameError ''container_image'')"
proof -
  have g: "\<not> isl (generate_secret (sample_world 2 [] None))"
    by (simp add: generate_secret_def sample_world_def struct_pack_hiih_def fits_signed_def
        bind_e_def)
  have e: "pre_events sample_params = [Run_command sample_existence_cmd]"
    by (simp add: sample_simps)
  have h: "\<not> module_check_mode (sample_world 2 [] None) \<and> p_state sample_params = ''present''
      \<and> p_caps sample_params = Some [(''mon'', ''allow rwx''), (''mds'', ''allow *'')]
      \<and> [(''mon'', ''allow rwx''), (''mds'', ''allow *'')] \<noteq> []
      \<and> \<not> (p_import_key sample_params \<and> key_exists (sample_world 2 [] None) sample_params
             \<and> no_secret (p_secret sample_params))"
    by (simp add: sample_simps)
  from g h e
    creation_path_unbound_name [of "''ceph''" "''client.key''" "''s''"
      "[(''mon'', ''allow rwx''), (''mds'', ''allow *'')]" "''/etc/ceph/''" "''/etc/ceph/''" None
      "sample_world 2 [] None" initial_result None True sample_params
      "[(''mon'', ''allow rwx''), (''mds'', ''allow *'')]"]
  show ?thesis by simp
qed

text \<open>
  C2 (as amended): an invocation with state \<^verbatim>\<open>present\<close> and a non-empty capability
  mapping, whose key-existence check exits with 0 and which gives no secret, is a no-op:
  it exits with the message that the key is skipped, the changed flag false and return
  code 0, having run the existence check only, whatever the capabilities are.
\<close>

theorem present_existing_key_is_skipped:
  assumes "\<not> module_check_mode w" and "p_state p = ''present''" and "p_import_key p"
    and "key_exists w p" and "no_secret (p_secret p)"
    and "p_caps p = Some caps" and "caps \<noteq> []"
  shows "run_module w p =
     (Inl (Exit_json \<lparr>r_changed = False, r_stdout = skipped_exists (p_name p), r_stderr = [],
                       r_rc = Some 0, r_start = None, r_end = None, r_delta = None,
                       r_cmd = None\<rparr>),
      [Run_command (existence_cmd p)])"
  using assms
  by (auto simp add: run_module_unfold pre_check_result bnd_def exit_json_def halt_def ret_def
        state_present_def require_caps_ok read_rc_def key_exists_def pre_events_def
        initial_result_def split: prod.splits)

theorem present_existing_key_is_skipped_witness:
  "\<not> module_check_mode (sample_world 0 [] None)
   \<and> p_state sample_params = ''present'' \<and> p_import_key sample_params
   \<and> key_exists (sample_world 0 [] None) sample_params
   \<and> no_secret (p_secret sample_params)
   \<and> p_caps sample_params = Some [(''mon'', ''allow rwx''), (''mds'', ''allow *'')]
   \<and> run_module (sample_world 0 [] None) sample_params =
       (Inl (Exit_json \<lparr>r_changed = False, r_stdout = skipped_exists ''client.key'',
                         r_stderr = [], r_rc = Some 0, r_start = None, r_end = None,
                         r_delta = None, r_cmd = None\<rparr>),
        [Run_command sample_existence_cmd])"
proof -
  have h: "\<not> module_check_mode (sample_world 0 [] None)" "p_state sample_params = ''present''"
    "p_import_key sample_params" "key_exists (sample_world 0 [] None) sample_params"
    "no_secret (p_secret sample_params)"
    "p_caps sample_params = Some [(''mon'', ''allow rwx''), (''mds'', ''allow *'')]"
    "[(''mon'', ''allow rwx''), (''mds'', ''allow *'')] \<noteq> []"
    by (simp_all add: sample_simps)
  have e: "existence_cmd sample_params = sample_existence_cmd" "p_name sample_params = ''client.key''"
    by (simp_all add: sample_simps)
  from present_existing_key_is_skipped [OF h] h e show ?thesis by simp
qed

text \<open>
  The claim without the condition on the capabilities fails: with an empty capability
  mapping the same invocation, of a key that exists and with no secret, ends in the
  error that capabilities must be provided.
\<close>

theorem present_existing_key_empty_caps_fails:
  "p_state (sample_params\<lparr>p_caps := Some []\<rparr>) = ''present''
   \<and> key_exists (sample_world 0 [] None) (sample_params\<lparr>p_caps := Some []\<rparr>)
   \<and> no_secret (p_secret (sample_params\<lparr>p_caps := Some []\<rparr>))
   \<and> run_module (sample_world 0 [] None) (sample_params\<lparr>p_caps := Some []\<rparr>) =
       (Inl (Fail_json (caps_required_msg ''present'') (Only_rc 1)),
        [Run_command sample_existence_cmd])"
  by (simp add: eval_simps sample_simps caps_required_msg_def)

text \<open>
  C3: with an explicit secret the module is to build and run the authoring command even
  when the key exists. The existence short-circuit is indeed passed, but the invocation
  then stops on the undefined name \<^verbatim>\<open>container_image\<close>: for the documentation's own
  example of an admin key with a secret and \<open>import_key\<close> false no command at all is
  run, and with \<open>import_key\<close> true and an existing key only the existence check is.
\<close>

theorem present_with_secret_runs_no_authoring_command:
  "run_module (sample_world 0 [] None)
     \<lparr>p_cluster = ''ceph'', p_name = ''client.admin'', p_state = ''present'',
      p_containerized = None,
      p_caps = Some [(''mon'', ''allow *''), (''osd'', ''allow *''), (''mgr'', ''allow *''),
                     (''mds'', ''allow'')],
      p_secret = Some ''AQAin8tU2DsKFBAAFIAzVTzkL3+gtAjjpQiomw=='', p_import_key = False,
      p_dest = ''/etc/ceph/''\<rparr>
     = (Inl (Raise (NameError ''container_image'')), [])
   \<and> run_module (sample_world 0 [] None)
         (sample_params\<lparr>p_secret := Some ''AQAin8tUUK84ExAA/QgBtI7gEMWdmnvKBzlXdQ==''\<rparr>)
     = (Inl (Raise (NameError ''container_image'')), [Run_command sample_existence_cmd])"
  by (simp add: eval_simps sample_simps)

subsection \<open>User-input errors\<close>

text \<open>
  C4 (as amended): outside check mode, an invocation whose state is not one of the six
  recognized ones, and an invocation with state \<^verbatim>\<open>present\<close> or \<^verbatim>\<open>update\<close> and an empty
  or absent capability mapping, ends in a user-input error with return code 1; before
  the error is reported no command is run when \<open>import_key\<close> is false, and exactly the
  key-existence check is run when \<open>import_key\<close> is true.
\<close>

theorem user_input_errors:
  assumes "\<not> module_check_mode w"
  shows "(p_state p \<notin> set recognized_states \<longrightarrow>
           run_module w p
             = (Inl (Fail_json invalid_state_msg (Changed_rc False 1)), pre_events p))
       \<and> (p_state p = ''present'' \<and> no_caps p \<longrightarrow>
           run_module w p
             = (Inl (Fail_json (caps_required_msg ''present'') (Only_rc 1)), pre_events p))
       \<and> (p_state p = ''update'' \<and> no_caps p \<longrightarrow>
           run_module w p
             = (Inl (Fail_json (caps_required_msg ''update'') (Only_rc 1)), pre_events p))
       \<and> pre_events p = (if p_import_key p then [Run_command (existence_cmd p)] else [])"
  using assms
  by (simp add: run_module_unfold pre_check_result recognized_states_def bnd_def fail_json_def
        halt_def state_present_def state_update_def require_caps_fails pre_events_def)

theorem user_input_errors_witness:
  "\<not> module_check_mode (sample_world 0 [] None)
   \<and> p_state (sample_params\<lparr>p_state := ''restart'', p_import_key := False\<rparr>)
        \<notin> set recognized_states
   \<and> run_module (sample_world 0 [] None)
        (sample_params\<lparr>p_state := ''restart'', p_import_key := False\<rparr>)
       = (Inl (Fail_json invalid_state_msg (Changed_rc False 1)), [])
   \<and> p_state (sample_params\<lparr>p_caps := None, p_import_key := False\<rparr>) = ''present''
   \<and> no_caps (sample_params\<lparr>p_caps := None, p_import_key := False\<rparr>)
   \<and> run_module (sample_world 0 [] None) (sample_params\<lparr>p_caps := None, p_import_key := False\<rparr>)
       = (Inl (Fail_json (caps_required_msg ''present'') (Only_rc 1)), [])
   \<and> p_state (sample_params\<lparr>p_state := ''update'', p_caps := Some [], p_import_key := False\<rparr>)
       = ''update''
   \<and> no_caps (sample_params\<lparr>p_state := ''update'', p_caps := Some [], p_import_key := False\<rparr>)
   \<and> run_module (sample_world 0 [] None)
        (sample_params\<lparr>p_state := ''update'', p_caps := Some [], p_import_key := False\<rparr>)
       = (Inl (Fail_json (caps_required_msg ''update'') (Only_rc 1)), [])"
proof -
  have m: "\<not> module_check_mode (sample_world 0 [] None)"
    by (simp add: sample_simps)
  have h: "p_state (sample_params\<lparr>p_state := ''restart'', p_import_key := False\<rparr>)
        \<notin> set recognized_states"
    "p_state (sample_params\<lparr>p_caps := None, p_import_key := False\<rparr>) = ''present''"
    "no_caps (sample_params\<lparr>p_caps := None, p_import_key := False\<rparr>)"
    "p_state (sample_params\<lparr>p_state := ''update'', p_caps := Some [], p_import_key := False\<rparr>)
       = ''update''"
    "no_caps (sample_params\<lparr>p_state := ''update'', p_caps := Some [], p_import_key := False\<rparr>)"
    by (simp_all add: sample_simps recognized_states_def)
  from m h
    user_input_errors [OF m, of "sample_params\<lparr>p_state := ''restart'', p_import_key := False\<rparr>"]
    user_input_errors [OF m, of "sample_params\<lparr>p_caps := None, p_import_key := False\<rparr>"]
    user_input_errors [OF m,
      of "sample_params\<lparr>p_state := ''update'', p_caps := Some [], p_import_key := False\<rparr>"]
  show ?thesis by simp
qed

text \<open>
  The claim's "no external command is executed before that error is reported" fails
  with the default \<open>import_key\<close>: for an unrecognized state the key-existence check
  has been run when the error is reported.
\<close>

theorem invalid_state_runs_existence_check:
  "p_state (sample_params\<lparr>p_state := ''restart''\<rparr>) \<notin> set recognized_states
   \<and> run_module (sample_world 0 [] None) (sample_params\<lparr>p_state := ''restart''\<rparr>)
       = (Inl (Fail_json invalid_state_msg (Changed_rc False 1)),
          [Run_command [''ceph'', ''-n'', ''client.admin'', ''-k'',
             ''/etc/ceph/ceph.client.admin.keyring'', ''--cluster'', ''ceph'', ''auth'', ''get'',
             ''client.key'', ''-f'', ''json'']])"
  by (simp add: eval_simps sample_simps recognized_states_def)

subsection \<open>States update and info\<close>

text \<open>
  C7 (as amended): outside check mode, an invocation with state \<^verbatim>\<open>info\<close>, or with
  state \<^verbatim>\<open>update\<close> and a non-empty capability mapping, whose key-existence check
  reports that the key does not exist (a non-zero exit code), exits successfully with the
  message that the key is skipped and return code 0, and runs no command after the
  check.
\<close>

theorem missing_key_is_skipped:
  assumes "\<not> module_check_mode w" and "p_import_key p" and "\<not> key_exists w p"
    and "p_state p = ''info'' \<or> (p_state p = ''update'' \<and> p_caps p = Some caps \<and> caps \<noteq> [])"
  shows "run_module w p =
     (Inl (Exit_json \<lparr>r_changed = False, r_stdout = skipped_missing (p_name p), r_stderr = [],
                       r_rc = Some 0, r_start = None, r_end = None, r_delta = None,
                       r_cmd = None\<rparr>),
      [Run_command (existence_cmd p)])"
  using assms
  by (auto simp add: run_module_unfold pre_check_result bnd_def exit_json_def halt_def ret_def
        state_info_def state_update_def require_caps_ok read_rc_def key_exists_def pre_events_def
        initial_result_def split: prod.splits)

theorem missing_key_is_skipped_witness:
  "\<not> module_check_mode (sample_world 2 [] None)
   \<and> p_import_key (sample_params\<lparr>p_state := ''update''\<rparr>)
   \<and> \<not> key_exists (sample_world 2 [] None) (sample_params\<lparr>p_state := ''update''\<rparr>)
   \<and> p_state (sample_params\<lparr>p_state := ''update''\<rparr>) = ''update''
   \<and> p_caps (sample_params\<lparr>p_state := ''update''\<rparr>)
       = Some [(''mon'', ''allow rwx''), (''mds'', ''allow *'')]
   \<and> run_module (sample_world 2 [] None) (sample_params\<lparr>p_state := ''update''\<rparr>) =
       (Inl (Exit_json \<lparr>r_changed = False, r_stdout = ''skipped, since client.key does not exist'',
                         r_stderr = [], r_rc = Some 0, r_start = None, r_end = None,
                         r_delta = None, r_cmd = None\<rparr>),
        [Run_command sample_existence_cmd])"
proof -
  have h: "\<not> module_check_mode (sample_world 2 [] None)"
    "p_import_key (sample_params\<lparr>p_state := ''update''\<rparr>)"
    "\<not> key_exists (sample_world 2 [] None) (sample_params\<lparr>p_state := ''update''\<rparr>)"
    by (simp_all add: sample_simps)
  have c: "p_state (sample_params\<lparr>p_state := ''update''\<rparr>) = ''info''
      \<or> (p_state (sample_params\<lparr>p_state := ''update''\<rparr>) = ''update''
          \<and> p_caps (sample_params\<lparr>p_state := ''update''\<rparr>)
              = Some [(''mon'', ''allow rwx''), (''mds'', ''allow *'')]
          \<and> [(''mon'', ''allow rwx''), (''mds'', ''allow *'')] \<noteq> [])"
    by (simp add: sample_simps)
  have e: "existence_cmd (sample_params\<lparr>p_state := ''update''\<rparr>) = sample_existence_cmd"
    "skipped_missing (p_name (sample_params\<lparr>p_state := ''update''\<rparr>))
       = ''skipped, since client.key does not exist''"
    by (simp_all add: sample_simps skipped_missing_def)
  from missing_key_is_skipped [OF h c] h c e show ?thesis by simp
qed

text \<open>
  The claim without the condition on the capabilities fails for \<^verbatim>\<open>update\<close>: with no
  capability mapping, the update of a key that does not exist is not skipped but ends in
  the error that capabilities must be provided.
\<close>

theorem update_missing_key_without_caps_fails:
  "p_state (sample_params\<lparr>p_state := ''update'', p_caps := None\<rparr>) = ''update''
   \<and> \<not> key_exists (sample_world 2 [] None) (sample_params\<lparr>p_state := ''update'', p_caps := None\<rparr>)
   \<and> run_module (sample_world 2 [] None) (sample_params\<lparr>p_state := ''update'', p_caps := None\<rparr>)
       = (Inl (Fail_json (caps_required_msg ''update'') (Only_rc 1)),
          [Run_command sample_existence_cmd])"
  by (simp add: eval_simps sample_simps caps_required_msg_def)

text \<open>
  C10 (as amended): outside check mode, an invocation with \<open>import_key\<close> false and state
  \<^verbatim>\<open>info\<close>, or state \<^verbatim>\<open>update\<close> with a non-empty capability mapping, skips the
  key-existence check, reads the variable \<open>rc\<close> before any assignment and raises an
  unbound-name error, with no command run, instead of skipping or running the operation.
\<close>

theorem update_info_without_import_key_raise:
  assumes "\<not> module_check_mode w" and "\<not> p_import_key p"
    and "p_state p = ''info'' \<or> (p_state p = ''update'' \<and> p_caps p = Some caps \<and> caps \<noteq> [])"
  shows "run_module w p = (Inl (Raise (UnboundLocalError ''rc'')), [])"
  using assms
  by (auto simp add: run_module_unfold pre_check_result bnd_def halt_def
        state_info_def state_update_def require_caps_ok read_rc_def pre_events_def)

theorem update_info_without_import_key_raise_witness:
  "\<not> module_check_mode (sample_world 0 [] None)
   \<and> \<not> p_import_key (sample_params\<lparr>p_state := ''info'', p_import_key := False\<rparr>)
   \<and> p_state (sample_params\<lparr>p_state := ''info'', p_import_key := False\<rparr>) = ''info''
   \<and> run_module (sample_world 0 [] None)
        (sample_params\<lparr>p_state := ''info'', p_import_key := False\<rparr>)
       = (Inl (Raise (UnboundLocalError ''rc'')), [])"
proof -
  have h: "\<not> module_check_mode (sample_world 0 [] None)"
    "\<not> p_import_key (sample_params\<lparr>p_state := ''info'', p_import_key := False\<rparr>)"
    by (simp_all add: sample_simps)
  have c: "p_state (sample_params\<lparr>p_state := ''info'', p_import_key := False\<rparr>) = ''info''"
    by (simp add: sample_simps)
  from update_info_without_import_key_raise [OF h disjI1 [OF c]] h c show ?thesis by simp
qed

text \<open>
  The claim for every invocation with state \<^verbatim>\<open>update\<close> fails: with \<open>import_key\<close> false
  and no capability mapping the invocation ends in the error that capabilities must be
  provided, before \<open>rc\<close> is read.
\<close>

theorem update_without_import_key_and_caps_fails:
  "\<not> p_import_key (sample_params\<lparr>p_state := ''update'', p_caps := None, p_import_key := False\<rparr>)
   \<and> p_state (sample_params\<lparr>p_state := ''update'', p_caps := None, p_import_key := False\<rparr>)
       = ''update''
   \<and> run_module (sample_world 0 [] None)
        (sample_params\<lparr>p_state := ''update'', p_caps := None, p_import_key := False\<rparr>)
       = (Inl (Fail_json (caps_required_msg ''update'') (Only_rc 1)), [])"
  by (simp add: eval_simps sample_simps caps_required_msg_def)

subsection \<open>Secret generation\<close>

lemma index_of_nth: "distinct xs \<Longrightarrow> i < length xs \<Longrightarrow> index_of (xs ! i) xs = i"
proof (induction xs arbitrary: i)
  case Nil
  then show ?case by simp
next
  case (Cons x xs)
  show ?case
  proof (cases i)
    case 0
    then show ?thesis by simp
  next
    case (Suc j)
    with Cons.prems have "j < length xs" "xs ! j \<noteq> x" by auto
    with Cons Suc show ?thesis by auto
  qed
qed

lemma b64_alphabet_length: "length b64_alphabet = 64"
  by (simp add: b64_alphabet_def)

lemma b64_alphabet_distinct: "distinct b64_alphabet"
  by (simp add: b64_alphabet_def)

lemma b64_index_char: "i < 64 \<Longrightarrow> b64_index (b64_char i) = i"
  by (simp add: b64_index_def b64_char_def index_of_nth b64_alphabet_distinct
      b64_alphabet_length)

lemma b64_char_not_pad: "i < 64 \<Longrightarrow> b64_char i \<noteq> CHR ''=''"
proof -
  assume "i < 64"
  then have "b64_char i \<in> set b64_alphabet"
    by (simp add: b64_char_def b64_alphabet_length)
  moreover have "CHR ''='' \<notin> set b64_alphabet"
    by (simp add: b64_alphabet_def)
  ultimately show ?thesis by auto
qed

lemma byte_bound: "unat (a :: byte) < 256"
  using unsigned_less [of a, where ?'a = nat] by simp

lemma byte_of_unat: "(of_nat n :: byte) = a" if "n = unat a"
  using that by simp

text \<open>The sextets of three bytes, as numbers, and the bytes back from them.\<close>

lemma b64_split:
  fixes a q :: nat
  assumes "q < m"
  shows "(a * m + q) div m = a" and "(a * m + q) mod m = q"
  using assms by simp_all

lemma b64_triple:
  fixes x y z :: nat
  assumes "x < 256" "y < 256" "z < 256"
  shows "x div 4 * 4 + (x mod 4 * 16 + y div 16) div 16 = x"
    and "(x mod 4 * 16 + y div 16) mod 16 * 16 + (y mod 16 * 4 + z div 64) div 4 = y"
    and "(y mod 16 * 4 + z div 64) mod 4 * 64 + z mod 64 = z"
    and "x div 4 < 64" "x mod 4 * 16 + y div 16 < 64" "y mod 16 * 4 + z div 64 < 64"
      "z mod 64 < 64"
proof -
  have y16: "y div 16 < 16" and z64: "z div 64 < 4"
    using assms by simp_all
  show "x div 4 * 4 + (x mod 4 * 16 + y div 16) div 16 = x"
    using b64_split(1) [OF y16, of "x mod 4"] by simp
  show "(x mod 4 * 16 + y div 16) mod 16 * 16 + (y mod 16 * 4 + z div 64) div 4 = y"
    using b64_split(2) [OF y16, of "x mod 4"] b64_split(1) [OF z64, of "y mod 16"] by simp
  show "(y mod 16 * 4 + z div 64) mod 4 * 64 + z mod 64 = z"
    using b64_split(2) [OF z64, of "y mod 16"] by simp
  show "x div 4 < 64" using assms by simp
  have "x mod 4 \<le> 3" by simp
  then show "x mod 4 * 16 + y div 16 < 64" using y16 by linarith
  have "y mod 16 \<le> 15" by simp
  then show "y mod 16 * 4 + z div 64 < 64" using z64 by linarith
  show "z mod 64 < 64" by simp
qed

lemma b64_pair:
  fixes x y :: nat
  assumes "x < 256" "y < 256"
  shows "(x mod 4 * 16 + y div 16) mod 16 * 16 + (y mod 16 * 4) div 4 = y"
    and "y mod 16 * 4 < 64"
proof -
  have y16: "y div 16 < 16"
    using assms by simp
  show "(x mod 4 * 16 + y div 16) mod 16 * 16 + (y mod 16 * 4) div 4 = y"
    using b64_split(2) [OF y16, of "x mod 4"] by simp
  have "y mod 16 \<le> 15" by simp
  then show "y mod 16 * 4 < 64" by linarith
qed

lemma b64_single:
  fixes x :: nat
  shows "x div 4 * 4 + (x mod 4 * 16) div 16 = x" and "x mod 4 * 16 < 64"
proof -
  show "x div 4 * 4 + (x mod 4 * 16) div 16 = x" by simp
  have "x mod 4 \<le> 3" by simp
  then show "x mod 4 * 16 < 64" by linarith
qed

lemma b64_chunk3:
  "b64decode ([b64_char (unat a div 4), b64_char (unat a mod 4 * 16 + unat b div 16),
      b64_char (unat b mod 16 * 4 + unat c div 64), b64_char (unat c mod 64)] @ rest)
   = [a, b, c] @ b64decode rest"
proof -
  note t = b64_triple [OF byte_bound [of a] byte_bound [of b] byte_bound [of c]]
  note idx = b64_index_char [OF t(4)] b64_index_char [OF t(5)] b64_index_char [OF t(6)]
    b64_index_char [OF t(7)]
  note pad = b64_char_not_pad [OF t(6)] b64_char_not_pad [OF t(7)]
  note bytes = byte_of_unat [OF t(1)] byte_of_unat [OF t(2)] byte_of_unat [OF t(3)]
  show ?thesis
    by (simp only: b64decode.simps append.simps Let_def idx pad if_False bytes)
qed

lemma b64_chunk2:
  "b64decode [b64_char (unat a div 4), b64_char (unat a mod 4 * 16 + unat b div 16),
      b64_char (unat b mod 16 * 4), CHR ''=''] = [a, b]"
proof -
  note t = b64_triple [OF byte_bound [of a] byte_bound [of b] byte_bound [of 0]]
  note u = b64_pair [OF byte_bound [of a] byte_bound [of b]]
  note idx = b64_index_char [OF t(4)] b64_index_char [OF t(5)] b64_index_char [OF u(2)]
  note pad = b64_char_not_pad [OF u(2)]
  note bytes = byte_of_unat [OF t(1)] byte_of_unat [OF u(1)]
  show ?thesis
    by (simp only: b64decode.simps append.simps Let_def idx pad if_False bytes) simp
qed

lemma b64_chunk1:
  "b64decode [b64_char (unat a div 4), b64_char (unat a mod 4 * 16), CHR ''='', CHR ''='']
   = [a]"
proof -
  note t = b64_triple [OF byte_bound [of a] byte_bound [of 0] byte_bound [of 0]]
  note u = b64_single [of "unat a"]
  note idx = b64_index_char [OF t(4)] b64_index_char [OF u(2)]
  note bytes = byte_of_unat [OF u(1)]
  show ?thesis
    by (simp only: b64decode.simps append.simps Let_def idx bytes) simp
qed

lemma b64decode_b64encode: "b64decode (b64encode bs) = bs"
proof (induction bs rule: b64encode.induct)
  case 1
  show ?case by simp
next
  case (2 a)
  show ?case using b64_chunk1 [of a] by simp
next
  case (3 a b)
  show ?case using b64_chunk2 [of a b] by simp
next
  case (4 a b c rest)
  then show ?case using b64_chunk3 [of a b c "b64encode rest"] by simp
qed

lemma le_bytes_Suc: "le_bytes (Suc n) x = word_of_int x # le_bytes n (x div 256)"
proof -
  have "map (\<lambda>i. word_of_int (x div 256 ^ i) :: byte) [0..<Suc n]
        = word_of_int x # map (\<lambda>i. word_of_int (x div 256 ^ Suc i)) [0..<n]"
    by (simp only: map_upt_Suc) simp
  moreover have "x div 256 ^ Suc i = x div 256 div 256 ^ i" for i
    by (simp add: zdiv_zmult2_eq)
  ultimately show ?thesis by (simp add: le_bytes_def)
qed

lemma length_le_bytes: "length (le_bytes n x) = n"
  by (simp add: le_bytes_def)

lemma unat_byte_of_int: "unat (word_of_int x :: byte) = nat (x mod 256)"
  by (simp add: unsigned_of_int take_bit_eq_mod)

lemma le_value_le_bytes: "le_value (le_bytes n x) = nat (x mod 256 ^ n)"
proof (induction n arbitrary: x)
  case 0
  show ?case by (simp add: le_bytes_def)
next
  case (Suc n)
  have "x mod 256 ^ Suc n = x mod 256 + 256 * (x div 256 mod 256 ^ n)"
    by (simp add: zmod_zmult2_eq)
  moreover have "0 \<le> x mod 256" "0 \<le> x div 256 mod 256 ^ n" by simp_all
  ultimately have "nat (x mod 256 ^ Suc n) = nat (x mod 256) + 256 * nat (x div 256 mod 256 ^ n)"
    by (simp add: nat_add_distrib nat_mult_distrib)
  then show ?case by (simp add: le_bytes_Suc unat_byte_of_int Suc.IH)
qed

lemma secret_blob_header:
  "header_version (secret_blob ts key) = 1"
  "header_created (secret_blob ts key) = nat (ts mod 2 ^ 32)"
  "header_reserved (secret_blob ts key) = 0"
  "header_key_length (secret_blob ts key) = 16"
  "drop 12 (secret_blob ts key) = key"
  by (simp_all add: secret_blob_def header_version_def header_created_def header_reserved_def
      header_key_length_def length_le_bytes le_value_le_bytes)

text \<open>
  C9 (as amended): for every timestamp that fits a signed 32-bit field and every sixteen
  bytes of random material, the secret is the base64 encoding of the blob made of the
  little-endian header (the version 1 in two bytes, the timestamp in four, a zero in
  four, the length 16 in two) and the sixteen bytes; so every secret decodes to a blob
  whose header declares sixteen bytes of key material, whatever the timestamp and the
  bytes are.
\<close>

theorem generate_secret_layout:
  assumes "fits_signed 32 (unix_time w)" and "length (os_urandom w 16) = 16"
  shows "generate_secret w = Inr (b64encode (secret_blob (unix_time w) (os_urandom w 16)))
    \<and> b64decode (b64encode (secret_blob (unix_time w) (os_urandom w 16)))
        = secret_blob (unix_time w) (os_urandom w 16)
    \<and> header_version (secret_blob (unix_time w) (os_urandom w 16)) = 1
    \<and> header_created (secret_blob (unix_time w) (os_urandom w 16))
        = nat (unix_time w mod 2 ^ 32)
    \<and> header_reserved (secret_blob (unix_time w) (os_urandom w 16)) = 0
    \<and> header_key_length (secret_blob (unix_time w) (os_urandom w 16)) = 16
    \<and> drop 12 (secret_blob (unix_time w) (os_urandom w 16)) = os_urandom w 16"
proof -
  have "generate_secret w = Inr (b64encode (secret_blob (unix_time w) (os_urandom w 16)))"
    using assms
    by (simp add: generate_secret_def struct_pack_hiih_def bind_e_def fits_signed_def
        secret_blob_def Let_def)
  then show ?thesis
    by (simp add: b64decode_b64encode secret_blob_header)
qed

theorem generate_secret_layout_witness:
  "fits_signed 32 (unix_time (sample_world 0 [] None))
   \<and> length (os_urandom (sample_world 0 [] None) 16) = 16
   \<and> generate_secret (sample_world 0 [] None) = Inr ''AQAAQtpbAAAAABAAAAAAAAAAAAAAAAAAAAAAAA==''
   \<and> header_key_length (b64decode ''AQAAQtpbAAAAABAAAAAAAAAAAAAAAAAAAAAAAA=='') = 16"
proof -
  have h1: "fits_signed 32 (unix_time (sample_world 0 [] None))"
    by (simp add: sample_world_def fits_signed_def)
  have h2: "length (os_urandom (sample_world 0 [] None) 16) = 16"
    by (simp add: sample_world_def)
  have e: "b64encode (secret_blob (unix_time (sample_world 0 [] None))
                       (os_urandom (sample_world 0 [] None) 16))
           = ''AQAAQtpbAAAAABAAAAAAAAAAAAAAAAAAAAAAAA==''"
    by code_simp
  from generate_secret_layout [OF h1 h2] have
    "generate_secret (sample_world 0 [] None) = Inr ''AQAAQtpbAAAAABAAAAAAAAAAAAAAAAAAAAAAAA==''"
    "header_key_length (b64decode ''AQAAQtpbAAAAABAAAAAAAAAAAAAAAAAAAAAAAA=='') = 16"
    unfolding e by simp_all
  with h1 h2 show ?thesis by simp
qed

text \<open>
  The claim for every timestamp fails: the first second that no longer fits the signed
  32-bit field makes the packing raise, with sixteen bytes of random material at hand.
\<close>

theorem generate_secret_timestamp_overflow:
  "length (os_urandom (sample_world 0 [] None\<lparr>unix_time := 2147483648\<rparr>) 16) = 16
   \<and> generate_secret (sample_world 0 [] None\<lparr>unix_time := 2147483648\<rparr>) = Inl StructError"
  by (simp add: sample_world_def generate_secret_def struct_pack_hiih_def bind_e_def
      fits_signed_def)

subsection \<open>Command failures\<close>

lemma exec_loop_stops:
  assumes "\<And>i. i < length xs \<Longrightarrow>
             fst (module_run_command w (t @ map Run_command (take i xs)) (xs ! i)) = 0"
    and "module_run_command w (t @ map Run_command xs) c = (rc, out, err)" and "rc \<noteq> 0"
  shows "exec_loop w (xs @ c # ys) prev t
         = (Inr (rc, c, out, err), t @ map Run_command (xs @ [c]))"
  using assms
proof (induction xs arbitrary: t prev)
  case Nil
  then show ?case by simp
next
  case (Cons x xs)
  from Cons.prems(1) [of 0] have x0: "fst (module_run_command w t x) = 0"
    by simp
  have step: "fst (module_run_command w ((t @ [Run_command x]) @ map Run_command (take i xs))
                     (xs ! i)) = 0" if "i < length xs" for i
    using Cons.prems(1) [of "Suc i"] that by simp
  have last: "module_run_command w ((t @ [Run_command x]) @ map Run_command xs) c = (rc, out, err)"
    using Cons.prems(2) by simp
  obtain o1 e1 where r: "module_run_command w t x = (0, o1, e1)"
    using x0 by (cases "module_run_command w t x") auto
  show ?case
    using Cons.IH [OF step last Cons.prems(3), of "Some (0, x, o1, e1)"] r by simp
qed

lemma operation_single:
  "update_key (p_cluster p) (p_name p) caps (p_containerized p) =
     [generate_ceph_cmd (p_cluster p) (generate_caps [''caps'', p_name p] ''ceph'' caps)
        ''client.admin'' (admin_keyring (p_cluster p)) (p_containerized p)]"
  "delete_key (p_cluster p) (p_name p) (p_containerized p) =
     [generate_ceph_cmd (p_cluster p) [''del'', p_name p]
        ''client.admin'' (admin_keyring (p_cluster p)) (p_containerized p)]"
  "list_keys (p_cluster p) ''client.admin'' (admin_keyring (p_cluster p)) (p_containerized p) =
     [generate_ceph_cmd (p_cluster p) [''ls'', ''-f'', ''json'']
        ''client.admin'' (admin_keyring (p_cluster p)) (p_containerized p)]"
  by (simp_all add: update_key_def delete_key_def list_keys_def admin_keyring_def)

lemma report_failure:
  assumes "\<not> module_check_mode w"
    and "key_exists_check w p [] = (Inr pre, pre_events p)"
    and "(if p_state p = ''present'' then state_present w p initial_result pre
          else if p_state p = ''update'' then state_update w p initial_result pre
          else if p_state p = ''absent'' then state_absent w p
          else if p_state p = ''info'' then state_info w p initial_result pre
          else if p_state p = ''list'' then state_list w p
          else if p_state p = ''fetch_initial_keys''
            then state_fetch_initial_keys w p initial_result
          else fail_json invalid_state_msg (Changed_rc False 1)) (pre_events p)
         = (Inr (rc, c, out, err), t)"
    and "rc \<noteq> 0"
  shows "run_module w p =
     (Inl (Fail_json ''non-zero return code''
            (Result_kwargs
               \<lparr>r_changed = True, r_stdout = rstrip_crlf out, r_stderr = rstrip_crlf err,
                r_rc = Some rc, r_start = Some (datetime_now w []),
                r_end = Some (datetime_now w t),
                r_delta = Some (datetime_now w t - datetime_now w []),
                r_cmd = Some c\<rparr>)), t)"
  using assms(2,3,4)
  by (simp add: run_module_unfold [OF assms(1)] bnd_def now_def Let_def fail_json_def halt_def)

lemma operation_runs:
  assumes "p_state p = ''absent'' \<or> p_state p = ''list''
         \<or> (p_import_key p \<and> key_exists w p
             \<and> (p_state p = ''info''
                 \<or> (p_state p = ''update'' \<and> p_caps p = Some caps \<and> caps \<noteq> [])))"
    and "key_exists_check w p [] = (Inr pre, pre_events p)"
    and "module_run_command w (pre_events p) (operation_cmd p caps) = (rc, out, err)"
  shows "(if p_state p = ''present'' then state_present w p initial_result pre
          else if p_state p = ''update'' then state_update w p initial_result pre
          else if p_state p = ''absent'' then state_absent w p
          else if p_state p = ''info'' then state_info w p initial_result pre
          else if p_state p = ''list'' then state_list w p
          else if p_state p = ''fetch_initial_keys''
            then state_fetch_initial_keys w p initial_result
          else fail_json invalid_state_msg (Changed_rc False 1)) (pre_events p)
         = (Inr (rc, operation_cmd p caps, out, err),
            pre_events p @ [Run_command (operation_cmd p caps)])"
proof -
  consider (absent) "p_state p = ''absent''" | (list) "p_state p = ''list''"
    | (info) "p_state p = ''info''" "p_import_key p" "key_exists w p"
    | (update) "p_state p = ''update''" "p_caps p = Some caps" "caps \<noteq> []"
        "p_import_key p" "key_exists w p"
    using assms(1) by blast
  then show ?thesis
  proof cases
    case absent
    with assms(3) show ?thesis
      by (simp add: state_absent_def operation_single exec_single operation_cmd_def
          operation_args_def)
  next
    case list
    with assms(3) show ?thesis
      by (simp add: state_list_def Let_def operation_single exec_single operation_cmd_def
          operation_args_def)
  next
    case info
    from info(2,3) assms(2) obtain o1 e1 where
      pre: "pre = Some (0, existence_cmd p, o1, e1)"
      by (auto simp add: pre_check_result key_exists_def split: prod.splits)
    from info(1) assms(3) show ?thesis
      by (simp add: state_info_def Let_def pre read_rc_def bnd_def ret_def info_key_single
          exec_single operation_cmd_def operation_args_def)
  next
    case update
    from update(4,5) assms(2) obtain o1 e1 where
      pre: "pre = Some (0, existence_cmd p, o1, e1)"
      by (auto simp add: pre_check_result key_exists_def split: prod.splits)
    from update(1) assms(3) show ?thesis
      by (simp add: state_update_def pre read_rc_def bnd_def ret_def
          require_caps_ok [OF update(2,3)] operation_single exec_single operation_cmd_def
          operation_args_def)
  qed
qed
text \<open>
  C6 (as amended): within one sequence of commands given to the executor, the first
  command that exits with a non-zero code ends the sequence, no later command of it is
  run, and the executor returns that command with its code, output and error text; and
  outside check mode a non-zero exit code of the command of the requested operation
  (states \<^verbatim>\<open>absent\<close> and \<^verbatim>\<open>list\<close>, and states \<^verbatim>\<open>info\<close> and \<^verbatim>\<open>update\<close> on an existing
  key) is surfaced as a hard failure of the invocation that carries the command, the
  return code and the captured output and error text.
\<close>

theorem command_failures_are_surfaced:
  "((\<forall>i < length xs.
        fst (module_run_command w (t @ map Run_command (take i xs)) (xs ! i)) = 0)
     \<and> module_run_command w (t @ map Run_command xs) c = (rc, out, err) \<and> rc \<noteq> 0 \<longrightarrow>
     exec_commands w (xs @ c # ys) t = (Inr (rc, c, out, err), t @ map Run_command (xs @ [c])))
   \<and> (\<not> module_check_mode w
       \<and> (p_state p = ''absent'' \<or> p_state p = ''list''
           \<or> (p_import_key p \<and> key_exists w p
               \<and> (p_state p = ''info''
                   \<or> (p_state p = ''update'' \<and> p_caps p = Some caps \<and> caps \<noteq> []))))
       \<and> module_run_command w (pre_events p) (operation_cmd p caps) = (rc', out', err')
       \<and> rc' \<noteq> 0 \<longrightarrow>
       run_module w p =
         (Inl (Fail_json ''non-zero return code''
                (Result_kwargs
                   \<lparr>r_changed = True, r_stdout = rstrip_crlf out', r_stderr = rstrip_crlf err',
                    r_rc = Some rc', r_start = Some (datetime_now w []),
                    r_end = Some (datetime_now w
                                    (pre_events p @ [Run_command (operation_cmd p caps)])),
                    r_delta = Some (datetime_now w
                                      (pre_events p @ [Run_command (operation_cmd p caps)])
                                    - datetime_now w []),
                    r_cmd = Some (operation_cmd p caps)\<rparr>)),
          pre_events p @ [Run_command (operation_cmd p caps)]))"
proof -
  have a: "exec_commands w (xs @ c # ys) t
           = (Inr (rc, c, out, err), t @ map Run_command (xs @ [c]))"
    if "\<forall>i < length xs.
          fst (module_run_command w (t @ map Run_command (take i xs)) (xs ! i)) = 0"
      and "module_run_command w (t @ map Run_command xs) c = (rc, out, err)" and "rc \<noteq> 0"
    unfolding exec_commands_def
    using that(1) by (intro exec_loop_stops [OF _ that(2,3)]) simp
  have b: "run_module w p =
         (Inl (Fail_json ''non-zero return code''
                (Result_kwargs
                   \<lparr>r_changed = True, r_stdout = rstrip_crlf out', r_stderr = rstrip_crlf err',
                    r_rc = Some rc', r_start = Some (datetime_now w []),
                    r_end = Some (datetime_now w
                                    (pre_events p @ [Run_command (operation_cmd p caps)])),
                    r_delta = Some (datetime_now w
                                      (pre_events p @ [Run_command (operation_cmd p caps)])
                                    - datetime_now w []),
                    r_cmd = Some (operation_cmd p caps)\<rparr>)),
          pre_events p @ [Run_command (operation_cmd p caps)])"
    if m: "\<not> module_check_mode w"
      and s: "p_state p = ''absent'' \<or> p_state p = ''list''
           \<or> (p_import_key p \<and> key_exists w p
               \<and> (p_state p = ''info''
                   \<or> (p_state p = ''update'' \<and> p_caps p = Some caps \<and> caps \<noteq> [])))"
      and r: "module_run_command w (pre_events p) (operation_cmd p caps) = (rc', out', err')"
      and n: "rc' \<noteq> 0"
  proof -
    obtain pre where pre: "key_exists_check w p [] = (Inr pre, pre_events p)"
      by (simp add: pre_check_result)
    show ?thesis
      by (rule report_failure [OF m pre operation_runs [OF s pre r] n])
  qed
  from a b show ?thesis by blast
qed

theorem command_failures_are_surfaced_witness:
  "fst (module_run_command (failing_world [''false'']) [] [''true'']) = 0
   \<and> module_run_command (failing_world [''false'']) [Run_command [''true'']] [''false'']
       = (2, [], ''Error ENOENT'')
   \<and> exec_commands (failing_world [''false'']) [[''true''], [''false''], [''true'']] []
       = (Inr (2, [''false''], [], ''Error ENOENT''),
          [Run_command [''true''], Run_command [''false'']])
   \<and> \<not> module_check_mode (failing_world sample_delete_cmd)
   \<and> p_state (sample_params\<lparr>p_state := ''absent''\<rparr>) = ''absent''
   \<and> module_run_command (failing_world sample_delete_cmd)
        [Run_command sample_existence_cmd] sample_delete_cmd = (2, [], ''Error ENOENT'')
   \<and> run_module (failing_world sample_delete_cmd) (sample_params\<lparr>p_state := ''absent''\<rparr>)
       = (Inl (Fail_json ''non-zero return code''
                (Result_kwargs
                   \<lparr>r_changed = True, r_stdout = [], r_stderr = ''Error ENOENT'',
                    r_rc = Some 2, r_start = Some 0, r_end = Some 2, r_delta = Some 2,
                    r_cmd = Some sample_delete_cmd\<rparr>)),
          [Run_command sample_existence_cmd, Run_command sample_delete_cmd])"
proof -
  have e: "pre_events (sample_params\<lparr>p_state := ''absent''\<rparr>) = [Run_command sample_existence_cmd]"
    "operation_cmd (sample_params\<lparr>p_state := ''absent''\<rparr>) [] = sample_delete_cmd"
    by (simp_all add: sample_simps operation_cmd_def operation_args_def sample_delete_cmd_def)
  have h: "\<forall>i < length [[''true'']].
        fst (module_run_command (failing_world [''false''])
               ([] @ map Run_command (take i [[''true'']])) ([[''true'']] ! i)) = 0"
    "module_run_command (failing_world [''false'']) ([] @ map Run_command [[''true'']]) [''false'']
       = (2, [], ''Error ENOENT'')"
    "\<not> module_check_mode (failing_world sample_delete_cmd)"
    "p_state (sample_params\<lparr>p_state := ''absent''\<rparr>) = ''absent''"
    "module_run_command (failing_world sample_delete_cmd)
        [Run_command sample_existence_cmd] sample_delete_cmd = (2, [], ''Error ENOENT'')"
    "datetime_now (failing_world sample_delete_cmd) [] = 0"
    "datetime_now (failing_world sample_delete_cmd)
       [Run_command sample_existence_cmd, Run_command sample_delete_cmd] = 2"
    "rstrip_crlf ''Error ENOENT'' = ''Error ENOENT''" "rstrip_crlf [] = []"
    by (simp_all add: failing_world_def sample_world_def sample_params_def rstrip_crlf_def)
  from h
    command_failures_are_surfaced [of "[[''true'']]" "failing_world [''false'']" "[]"
      "[''false'']" 2 "[]" "''Error ENOENT''" "[[''true'']]"
      "sample_params\<lparr>p_state := ''absent''\<rparr>" "[]" 2 "[]" "''Error ENOENT''"]
  have x: "exec_commands (failing_world [''false'']) [[''true''], [''false''], [''true'']] []
       = (Inr (2, [''false''], [], ''Error ENOENT''),
          [Run_command [''true''], Run_command [''false'']])"
    by simp
  from h e
    command_failures_are_surfaced [of "[]" "failing_world sample_delete_cmd" "[]"
      "[''false'']" 2 "[]" "''Error ENOENT''" "[]"
      "sample_params\<lparr>p_state := ''absent''\<rparr>" "[]" 2 "[]" "''Error ENOENT''"]
  have y: "run_module (failing_world sample_delete_cmd) (sample_params\<lparr>p_state := ''absent''\<rparr>)
       = (Inl (Fail_json ''non-zero return code''
                (Result_kwargs
                   \<lparr>r_changed = True, r_stdout = [], r_stderr = ''Error ENOENT'',
                    r_rc = Some 2, r_start = Some 0, r_end = Some 2, r_delta = Some 2,
                    r_cmd = Some sample_delete_cmd\<rparr>)),
          [Run_command sample_existence_cmd, Run_command sample_delete_cmd])"
    by simp
  have z: "fst (module_run_command (failing_world [''false'']) [] [''true'']) = 0"
    "module_run_command (failing_world [''false'']) [Run_command [''true'']] [''false'']
       = (2, [], ''Error ENOENT'')"
    by (simp_all add: failing_world_def sample_world_def)
  from x y z h(3,4,5) show ?thesis by simp
qed

text \<open>
  The claim for every constructed command fails for the key-existence check: its
  non-zero exit code is not a failure of the invocation. Here the check exits with 2,
  the deletion is run after it and the invocation exits successfully.
\<close>

theorem failed_existence_check_is_not_surfaced:
  "module_run_command (failing_world sample_existence_cmd) [] sample_existence_cmd
     = (2, [], ''Error ENOENT'')
   \<and> run_module (failing_world sample_existence_cmd) (sample_params\<lparr>p_state := ''absent''\<rparr>)
       = (Inl (Exit_json
                \<lparr>r_changed = True, r_stdout = [], r_stderr = [], r_rc = Some 0,
                 r_start = Some 0, r_end = Some 2, r_delta = Some 2,
                 r_cmd = Some sample_delete_cmd\<rparr>),
          [Run_command sample_existence_cmd, Run_command sample_delete_cmd])"
  by (simp add: eval_simps sample_simps failing_world_def sample_delete_cmd_def delete_key_def
      rstrip_crlf_def)

subsection \<open>Bootstrap fetch\<close>

lemma lift_apply:
  "lift r t = (case r of Inl e \<Rightarrow> (Inl (Raise e), t) | Inr x \<Rightarrow> (Inr x, t))"
  by (simp add: lift_def halt_def ret_def split: sum.splits)

lemma lookup_eq:
  "lookup_ceph_initial_entities w out t =
     (case json_loads w out of
        None \<Rightarrow> (Inl (Raise (NameError ''module'')), t)
      | Some d \<Rightarrow>
          (case json_contains d ''auth_dump'' of
             Inl e \<Rightarrow> (Inl (Raise e), t)
           | Inr has_dump \<Rightarrow>
               if has_dump then
                 (case bind_e (json_getitem d ''auth_dump'') (\<lambda>dump.
                       bind_e (json_iter dump) (\<lambda>ks. entities_of_dump ks [])) of
                    Inl e \<Rightarrow> (Inl (Raise e), t)
                  | Inr es \<Rightarrow> (Inr (if length es \<noteq> 7 then None else Some es), t))
               else (Inl (Raise (NameError ''module'')), t)))"
  by (simp add: lookup_ceph_initial_entities_def bnd_def lift_apply unbound_global_def ret_def
      bind_e_def CEPH_INITIAL_KEYS_def split: option.splits sum.splits)

lemma entity_items_eq: "entity_items items acc = acc @ item_entities items"
proof (induction items arbitrary: acc)
  case Nil
  show ?case by (simp add: item_entities_def)
next
  case (Cons kv items)
  obtain k v where kv: "kv = (k, v)" by (cases kv)
  show ?case
    unfolding kv by (cases v) (simp_all add: Cons.IH, simp_all add: item_entities_def)
qed

lemma item_entities_initial: "set (item_entities items) \<subseteq> set CEPH_INITIAL_KEYS"
  by (auto simp add: item_entities_def split: json.splits if_splits)

lemma entities_of_dump_initial:
  "entities_of_dump ds acc = Inr es \<Longrightarrow> set es \<subseteq> set acc \<union> set CEPH_INITIAL_KEYS"
proof (induction ds arbitrary: acc)
  case Nil
  then show ?case by auto
next
  case (Cons d ds)
  from Cons.prems obtain items where d: "d = JObject items"
    by (cases d) simp_all
  from Cons.prems have "entities_of_dump ds (acc @ item_entities items) = Inr es"
    by (simp add: d entity_items_eq)
  from Cons.IH [OF this] item_entities_initial [of items] show ?case by auto
qed

lemma entities_of_dump_objects:
  "\<forall>d \<in> set ds. is_object d \<Longrightarrow> entities_of_dump ds acc = Inr (acc @ found_entities ds)"
proof (induction ds arbitrary: acc)
  case Nil
  show ?case by (simp add: found_entities_def)
next
  case (Cons d ds)
  from Cons.prems obtain items where d: "d = JObject items"
    by (cases d) (simp_all add: is_object_def)
  from Cons.prems have "\<forall>d \<in> set ds. is_object d" by simp
  from Cons.IH [OF this] show ?case
    by (simp add: d entity_items_eq found_entities_def)
qed

lemma lookup_result:
  "\<exists>r. lookup_ceph_initial_entities w out t = (r, t)
       \<and> (case r of
            Inl s \<Rightarrow> \<exists>e. s = Raise e
          | Inr None \<Rightarrow> True
          | Inr (Some es) \<Rightarrow> length es = 7 \<and> set es \<subseteq> set CEPH_INITIAL_KEYS)"
proof -
  have sub: "set es \<subseteq> set CEPH_INITIAL_KEYS"
    if "bind_e (json_getitem d ''auth_dump'') (\<lambda>dump.
          bind_e (json_iter dump) (\<lambda>ks. entities_of_dump ks [])) = Inr es" for d es
    using that entities_of_dump_initial [of _ "[]" es]
    by (auto simp add: bind_e_def split: sum.splits)
  show ?thesis
    using sub by (auto simp add: lookup_eq split: option.splits sum.splits)
qed

lemma list_keys_single:
  "list_keys c u k ct = [generate_ceph_cmd c [''ls'', ''-f'', ''json''] u k ct]"
  by (simp add: list_keys_def)

lemma fetch_stops:
  assumes "\<not> module_check_mode w" and "p_state p = ''fetch_initial_keys''"
    and "module_run_command w (pre_events p) (listing_cmd w p) = (0, out, err)"
    and "lookup_ceph_initial_entities w out (listing_events w p) = (r, listing_events w p)"
    and "\<forall>es. r \<noteq> Inr (Some es)"
  shows "run_module w p =
     (Inl (case r of
             Inl s \<Rightarrow> s
           | Inr es \<Rightarrow> Fail_json ''Failed to find some of the initial entities'' (Only_rc 1)),
      listing_events w p)"
proof (cases r)
  case (Inl s)
  with assms(1-4) show ?thesis
    by (simp add: run_module_unfold pre_check_result bnd_def state_fetch_initial_keys_def
        Let_def list_keys_single exec_single ret_def listing_cmd_def listing_events_def)
next
  case (Inr es)
  with assms(5) have "es = None" by (cases es) simp_all
  with Inr assms(1-4) show ?thesis
    by (simp add: run_module_unfold pre_check_result bnd_def state_fetch_initial_keys_def
        Let_def list_keys_single exec_single ret_def fatal_def halt_def
        listing_cmd_def listing_events_def)
qed

lemmas fetch_simps =
  state_fetch_initial_keys_def list_keys_def mon_keyring_def lookup_eq json_contains_def
  json_getitem_def json_iter_def bind_e_def CEPH_INITIAL_KEYS_def fetch_entity_def
  build_key_path_def set_owner_and_mode_def os_call_def account_id_def rstrip_crlf_def
  fetch_params_def repeated_admin_listing_def admin_entry_def
  sample_fetch_cmd_def sample_listing_cmd_def listing_cmd_def listing_events_def

text \<open>
  What the fetch does after a listing that exits with 0. If the output is not valid JSON
  or is an object without the \<^verbatim>\<open>auth_dump\<close> field, the invocation stops on the undefined
  name \<^verbatim>\<open>module\<close>, read where the lookup calls \<^verbatim>\<open>fatal\<close>. If the entries of the dump
  yield a number of matching \<^verbatim>\<open>entity\<close> values other than seven, it fails fatally. The
  lookup returns names only when it has counted seven values, each an initial name, and
  whenever it returns none the invocation has failed with nothing run but the
  key-existence check and the listing.
\<close>

lemma fetch_lookup_gate:
  assumes "\<not> module_check_mode w" and "p_state p = ''fetch_initial_keys''"
    and "module_run_command w (pre_events p) (listing_cmd w p) = (0, out, err)"
  shows
    "(json_loads w out = None \<longrightarrow>
        run_module w p = (Inl (Raise (NameError ''module'')), listing_events w p))
   \<and> (json_loads w out = Some (JObject items) \<and> ''auth_dump'' \<notin> set (map fst items) \<longrightarrow>
        run_module w p = (Inl (Raise (NameError ''module'')), listing_events w p))
   \<and> (json_loads w out = Some (JObject items') \<and> map_of items' ''auth_dump'' = Some (JArray ds)
       \<and> (\<forall>d \<in> set ds. is_object d) \<and> length (found_entities ds) \<noteq> 7 \<longrightarrow>
        run_module w p
          = (Inl (Fail_json ''Failed to find some of the initial entities'' (Only_rc 1)),
             listing_events w p))
   \<and> (json_loads w out = Some (JObject items') \<and> map_of items' ''auth_dump'' = Some (JArray ds)
       \<and> (\<forall>d \<in> set ds. is_object d) \<and> length (found_entities ds) = 7 \<longrightarrow>
        lookup_ceph_initial_entities w out t = (Inr (Some (found_entities ds)), t))
   \<and> (\<exists>r. lookup_ceph_initial_entities w out (listing_events w p) = (r, listing_events w p)
          \<and> (case r of
                Inr (Some es) \<Rightarrow> length es = 7 \<and> set es \<subseteq> set CEPH_INITIAL_KEYS
              | _ \<Rightarrow> failed (fst (run_module w p))
                       \<and> snd (run_module w p) = listing_events w p))"
proof -
  note stops = fetch_stops [OF assms]
  have a: "run_module w p = (Inl (Raise (NameError ''module'')), listing_events w p)"
    if "json_loads w out = None"
    using stops [of "Inl (Raise (NameError ''module''))"] that by (simp add: lookup_eq)
  have b: "run_module w p = (Inl (Raise (NameError ''module'')), listing_events w p)"
    if "json_loads w out = Some (JObject items)" "''auth_dump'' \<notin> set (map fst items)"
    using stops [of "Inl (Raise (NameError ''module''))"] that
    by (simp add: lookup_eq json_contains_def)
  have dump: "lookup_ceph_initial_entities w out t'
      = (Inr (if length (found_entities ds) \<noteq> 7 then None else Some (found_entities ds)), t')"
    if l: "json_loads w out = Some (JObject items')"
      and m: "map_of items' ''auth_dump'' = Some (JArray ds)"
      and o: "\<forall>d \<in> set ds. is_object d" for t'
  proof -
    from m have "''auth_dump'' \<in> set (map fst items')"
      by (metis map_of_eq_None_iff option.distinct(1) set_map)
    with l m entities_of_dump_objects [OF o, of "[]"] show ?thesis
      by (simp add: lookup_eq json_contains_def json_getitem_def json_iter_def bind_e_def)
  qed
  have c: "run_module w p
          = (Inl (Fail_json ''Failed to find some of the initial entities'' (Only_rc 1)),
             listing_events w p)"
    if "json_loads w out = Some (JObject items')" "map_of items' ''auth_dump'' = Some (JArray ds)"
      "\<forall>d \<in> set ds. is_object d" "length (found_entities ds) \<noteq> 7"
    using stops [of "Inr None"] dump [OF that(1,2,3), of "listing_events w p"] that(4)
    by simp
  have d: "lookup_ceph_initial_entities w out t = (Inr (Some (found_entities ds)), t)"
    if "json_loads w out = Some (JObject items')" "map_of items' ''auth_dump'' = Some (JArray ds)"
      "\<forall>d \<in> set ds. is_object d" "length (found_entities ds) = 7"
    using dump [OF that(1,2,3), of t] that(4) by simp
  have e: "\<exists>r. lookup_ceph_initial_entities w out (listing_events w p) = (r, listing_events w p)
          \<and> (case r of
                Inr (Some es) \<Rightarrow> length es = 7 \<and> set es \<subseteq> set CEPH_INITIAL_KEYS
              | _ \<Rightarrow> failed (fst (run_module w p))
                       \<and> snd (run_module w p) = listing_events w p)"
  proof -
    from lookup_result [of w out "listing_events w p"] obtain r where
      r: "lookup_ceph_initial_entities w out (listing_events w p) = (r, listing_events w p)"
      and k: "case r of
                Inl s \<Rightarrow> \<exists>e. s = Raise e
              | Inr None \<Rightarrow> True
              | Inr (Some es) \<Rightarrow> length es = 7 \<and> set es \<subseteq> set CEPH_INITIAL_KEYS"
      by blast
    have "case r of
            Inr (Some es) \<Rightarrow> length es = 7 \<and> set es \<subseteq> set CEPH_INITIAL_KEYS
          | _ \<Rightarrow> failed (fst (run_module w p)) \<and> snd (run_module w p) = listing_events w p"
    proof (cases r)
      case (Inl s)
      with k obtain x where "s = Raise x" by auto
      with Inl stops [OF r] show ?thesis by (simp add: failed_def)
    next
      case (Inr es)
      show ?thesis
      proof (cases es)
        case None
        with Inr stops [OF r] show ?thesis by (simp add: failed_def)
      next
        case (Some names)
        with Inr k show ?thesis by simp
      qed
    qed
    with r show ?thesis by blast
  qed
  from a b c d e show ?thesis by blast
qed

text \<open>
  Where no entity is repeated the count is the right test: seven distinct names returned
  by the lookup are exactly the seven initial names.
\<close>

lemma lookup_distinct_entities:
  assumes "lookup_ceph_initial_entities w out t = (Inr (Some es), t')" and "distinct es"
  shows "set es = set CEPH_INITIAL_KEYS"
proof -
  from lookup_result [of w out t] assms(1)
  have l: "length es = 7" and s: "set es \<subseteq> set CEPH_INITIAL_KEYS"
    by auto
  have "card (set es) = 7"
    using assms(2) l by (simp add: distinct_card)
  moreover have "card (set CEPH_INITIAL_KEYS) = 7"
  proof -
    have "distinct CEPH_INITIAL_KEYS" "length CEPH_INITIAL_KEYS = 7"
      by (simp_all add: CEPH_INITIAL_KEYS_def)
    then show ?thesis by (simp add: distinct_card)
  qed
  ultimately show ?thesis
    using s by (simp add: card_subset_eq)
qed


end
